theory Spec2Isabelle
  imports
    Main
    "HOL-Library.List_Lexorder"
    "HOL-Library.Sublist"
    "HOL-Library.Multiset"
begin

section \<open>JavaScript values and strings\<close>

text \<open>
  The commands of mite-cli work on loosely typed records that the mite API returns and
  on the strings of the command line. A JavaScript string is a sequence of UTF-16 code
  units, and the model has it as the list of these numbers: equality, \<^verbatim>\<open>indexOf\<close>,
  \<^verbatim>\<open>split\<close> and the comparisons \<^verbatim>\<open><\<close> and \<^verbatim>\<open>>\<close> (lexicographic on the code units)
  are then what they are in JavaScript. A string literal of the source is ASCII and
  \<open>lit\<close> gives its code units.
\<close>

type_synonym jsstring = "nat list"

definition lit :: "string \<Rightarrow> jsstring" where
  "lit s = map of_char s"

text \<open>A value is one of the scalars the records hold. Numbers are the integers of the
  API (identifiers, rates in cents).\<close>

datatype jsval = JUndefined | JNull | JBool bool | JNum int | JStr jsstring

text \<open>An object of the API (a customer, a project, a service): its own properties,
  each key with its value. \<^verbatim>\<open>item[k]\<close> reads a property; one that is missing reads as
  \<open>undefined\<close>.\<close>

type_synonym jsobject = "(jsstring \<times> jsval) list"

definition getProp :: "jsobject \<Rightarrow> jsstring \<Rightarrow> jsval" where
  "getProp item k = (case map_of item k of None \<Rightarrow> JUndefined | Some v \<Rightarrow> v)"

text \<open>Truthiness, as \<^verbatim>\<open>!value\<close>, \<^verbatim>\<open>if (x)\<close> and \<^verbatim>\<open>a && b\<close> test it.\<close>

fun truthy :: "jsval \<Rightarrow> bool" where
  "truthy JUndefined = False"
| "truthy JNull = False"
| "truthy (JBool b) = b"
| "truthy (JNum n) = (n \<noteq> 0)"
| "truthy (JStr s) = (s \<noteq> [])"

text \<open>\<^verbatim>\<open>a || b\<close>\<close>

definition js_or :: "jsval \<Rightarrow> jsval \<Rightarrow> jsval" where
  "js_or a b = (if truthy a then a else b)"

subsection \<open>Case conversion\<close>

text \<open>
  \<^verbatim>\<open>String.prototype.toUpperCase\<close> and \<^verbatim>\<open>String.prototype.toLowerCase\<close> belong to the
  JavaScript engine and follow the case mappings of Unicode (the German sharp s becomes \<open>SS\<close>,
  the Kelvin sign becomes \<open>k\<close>). The model does not contain these tables: every
  function that converts case takes the two conversions as the parameter \<open>js\<close>, and
  what is proved holds for any conversions whatever.
\<close>

record engine =
  toUpperCase :: "jsstring \<Rightarrow> jsstring"
  toLowerCase :: "jsstring \<Rightarrow> jsstring"

text \<open>
  On a string of ASCII characters the conversions of JavaScript exchange the letters
  \<open>a\<close> to \<open>z\<close> with \<open>A\<close> to \<open>Z\<close> and leave every other character as it is.
  \<open>ascii_faithful\<close> says this of the parameter; \<open>ascii_engine\<close> converts every
  string in that way and serves where a concrete engine is needed: the examples below
  apply it to ASCII strings and to the dash U+2013, which has no case, and there it
  computes what JavaScript computes.
\<close>

definition toUpperChar :: "nat \<Rightarrow> nat" where
  "toUpperChar c = (if 97 \<le> c \<and> c \<le> 122 then c - 32 else c)"

definition toLowerChar :: "nat \<Rightarrow> nat" where
  "toLowerChar c = (if 65 \<le> c \<and> c \<le> 90 then c + 32 else c)"

definition ascii :: "jsstring \<Rightarrow> bool" where
  "ascii s = list_all (\<lambda>c. c < 128) s"

definition ascii_engine :: engine where
  "ascii_engine = \<lparr>toUpperCase = map toUpperChar, toLowerCase = map toLowerChar\<rparr>"

definition ascii_faithful :: "engine \<Rightarrow> bool" where
  "ascii_faithful js =
     (\<forall>s. ascii s \<longrightarrow>
        toUpperCase js s = map toUpperChar s \<and> toLowerCase js s = map toLowerChar s)"

subsection \<open>Strings and arrays\<close>

text \<open>\<^verbatim>\<open>s.indexOf(t)\<close>: the first position at which \<open>t\<close> occurs in \<open>s\<close>, or \<open>-1\<close>.\<close>

fun indexOf :: "jsstring \<Rightarrow> jsstring \<Rightarrow> int" where
  "indexOf [] t = (if t = [] then 0 else - 1)"
| "indexOf (c # s) t =
     (if prefix t (c # s) then 0
      else (let r = indexOf s t in if r = - 1 then - 1 else r + 1))"

text \<open>\<^verbatim>\<open>array.indexOf(x)\<close>: the first index of an element strictly equal to \<open>x\<close>,
  or \<open>-1\<close>.\<close>

fun array_indexOf :: "'a list \<Rightarrow> 'a \<Rightarrow> int" where
  "array_indexOf [] x = - 1"
| "array_indexOf (y # ys) x =
     (if y = x then 0
      else (let r = array_indexOf ys x in if r = - 1 then - 1 else r + 1))"

text \<open>\<^verbatim>\<open>array.join(sep)\<close> on strings.\<close>

fun join :: "jsstring list \<Rightarrow> jsstring \<Rightarrow> jsstring" where
  "join [] sep = []"
| "join [x] sep = x"
| "join (x # y # ys) sep = x @ sep @ join (y # ys) sep"

text \<open>\<^verbatim>\<open>str.split(',')\<close>: the pieces between the commas (code unit 44); the empty
  string splits into one empty piece.\<close>

fun split_comma :: "jsstring \<Rightarrow> jsstring list" where
  "split_comma [] = [[]]"
| "split_comma (c # s) =
     (if c = 44 then [] # split_comma s
      else (case split_comma s of
              [] \<Rightarrow> [[c]]
            | p # ps \<Rightarrow> (c # p) # ps))"

text \<open>The decimal digits of a natural number (the digit \<open>0\<close> is code unit 48), and
  \<^verbatim>\<open>String(v)\<close>. JavaScript prints an integer in plain decimal when its magnitude is
  below \<open>10\<^sup>2\<^sup>1\<close>, which the identifiers and rates of the API are.\<close>

fun digits :: "nat \<Rightarrow> jsstring" where
  "digits n =
     (if n < 10 then [48 + n]
      else digits (n div 10) @ [48 + n mod 10])"

definition showInt :: "int \<Rightarrow> jsstring" where
  "showInt n = (if n < 0 then 45 # digits (nat (- n)) else digits (nat n))"

fun String :: "jsval \<Rightarrow> jsstring" where
  "String JUndefined = lit ''undefined''"
| "String JNull = lit ''null''"
| "String (JBool b) = (if b then lit ''true'' else lit ''false'')"
| "String (JNum n) = showInt n"
| "String (JStr s) = s"

subsection \<open>What the words of the specification mean\<close>

text \<open>
  For ASCII strings, ignoring case has one meaning. Two characters are the same up to
  case when they are equal or one is the capital of the other; two strings are, when
  they have the same length and their characters are pairwise the same up to case. A
  string contains a query as a case-insensitive substring when one of its substrings
  is the same as the query up to case. These definitions do not mention the
  conversions the code uses.
\<close>

definition is_upper :: "nat \<Rightarrow> bool" where
  "is_upper c = (65 \<le> c \<and> c \<le> 90)"

definition same_letter :: "nat \<Rightarrow> nat \<Rightarrow> bool" where
  "same_letter c d = (c = d \<or> (is_upper c \<and> d = c + 32) \<or> (is_upper d \<and> c = d + 32))"

definition ci_equal :: "jsstring \<Rightarrow> jsstring \<Rightarrow> bool" where
  "ci_equal s t = list_all2 same_letter s t"

definition ci_contains :: "jsstring \<Rightarrow> jsstring \<Rightarrow> bool" where
  "ci_contains s q = (\<exists>ps m ss. s = ps @ m @ ss \<and> ci_equal m q)"

text \<open>
  Beyond ASCII the conversions of Unicode do not agree on which strings differ in case
  only, so there the words are read by the conversion the code applies: a string
  contains a query, case ignored, when the upper-cased string contains the upper-cased
  query.
\<close>

definition contains_ignoring_case :: "engine \<Rightarrow> jsstring \<Rightarrow> jsstring \<Rightarrow> bool" where
  "contains_ignoring_case js s q = sublist (toUpperCase js q) (toUpperCase js s)"

section \<open>The option parsers of the listing command\<close>

text \<open>
  commander gives an option its default value when the option is absent from the
  command line, and the result of the option's coercion function, applied to the
  argument string, when it is present.
\<close>

definition optionValue :: "(jsstring \<Rightarrow> 'r) \<Rightarrow> 'r \<Rightarrow> jsstring option \<Rightarrow> 'r" where
  "optionValue coercion dflt given =
     (case given of None \<Rightarrow> dflt | Some s \<Rightarrow> coercion s)"

text \<open>The coercion of \<^verbatim>\<open>--archived\<close>, the same function in the listing command and
  in \<^verbatim>\<open>customer update\<close>.\<close>

definition archivedTokens :: "jsstring list" where
  "archivedTokens = [lit ''true'', lit ''yes'', lit ''ja'', lit ''ok'', lit ''1'']"

definition archivedCoercion :: "engine \<Rightarrow> jsval \<Rightarrow> jsval" where
  "archivedCoercion js val =
     (case val of
        JStr s \<Rightarrow> JBool (array_indexOf archivedTokens (toLowerCase js s) > - 1)
      | _ \<Rightarrow> val)"

text \<open>The listing command declares the option with the default \<open>null\<close>;
  \<^verbatim>\<open>customer update\<close> declares it without a default, so that the option reads as
  \<open>undefined\<close> when it is absent.\<close>

definition program_archived :: "engine \<Rightarrow> jsstring option \<Rightarrow> jsval" where
  "program_archived js given = optionValue (\<lambda>s. archivedCoercion js (JStr s)) JNull given"

definition update_archived :: "engine \<Rightarrow> jsstring option \<Rightarrow> jsval" where
  "update_archived js given =
     optionValue (\<lambda>s. archivedCoercion js (JStr s)) JUndefined given"

text \<open>The coercion of \<^verbatim>\<open>--columns\<close> drops the empty entries of the comma-separated
  list; the default is \<^verbatim>\<open>id,name,rate,note\<close>.\<close>

definition columnsCoercion :: "jsstring \<Rightarrow> jsstring" where
  "columnsCoercion str = join (filter (\<lambda>v. v \<noteq> []) (split_comma str)) (lit '','')"

definition program_columns :: "jsstring option \<Rightarrow> jsstring" where
  "program_columns given = optionValue columnsCoercion (lit ''id,name,rate,note'') given"

definition SORT_OPTIONS :: "jsstring list" where
  "SORT_OPTIONS =
     [lit ''id'', lit ''name'', lit ''updated_at'', lit ''created_at'', lit ''hourly_rate'',
      lit ''rate'']"

text \<open>
  The coercion of \<^verbatim>\<open>--sort\<close> prints a message on the error stream and ends the
  process with code 2 when the value is not a sort option (\<open>Inl\<close>, with the message);
  otherwise it returns the value. The default is \<^verbatim>\<open>name\<close>. \<^verbatim>\<open>console.error\<close> puts
  the value in place of \<^verbatim>\<open>%s\<close> and appends the list of the options after a space.
  Code unit 34 is the double quote.
\<close>

definition invalidSortMessage :: "jsstring \<Rightarrow> jsstring" where
  "invalidSortMessage v =
     lit ''Invalid value for sort option: '' @ [34] @ v @ [34]
       @ lit '', valid values are: '' @ lit '' '' @ join SORT_OPTIONS (lit '', '')"

definition sortCoercion :: "jsstring \<Rightarrow> jsstring + jsstring" where
  "sortCoercion v =
     (if array_indexOf SORT_OPTIONS v = - 1 then Inl (invalidSortMessage v) else Inr v)"

definition program_sort :: "jsstring option \<Rightarrow> jsstring + jsstring" where
  "program_sort given = optionValue sortCoercion (Inr (lit ''name'')) given"

section \<open>The listing pipeline\<close>

subsection \<open>Filter\<close>

text \<open>
  \<^verbatim>\<open>array.filter(callback)\<close> visits the elements in order and appends to the result
  those for which the callback holds.
\<close>

definition array_filter :: "('a \<Rightarrow> bool) \<Rightarrow> 'a list \<Rightarrow> 'a list" where
  "array_filter callback xs = foldl (\<lambda>kept x. if callback x then kept @ [x] else kept) [] xs"

text \<open>The callback of the listing command; \<open>archived\<close> is the value of the option
  (\<open>null\<close>, \<open>true\<close> or \<open>false\<close>) and \<^verbatim>\<open>===\<close> is equality of scalars.\<close>

definition archivedFilter :: "jsval \<Rightarrow> jsobject \<Rightarrow> bool" where
  "archivedFilter archived customer =
     (if archived = JNull then True else getProp customer (lit ''archived'') = archived)"

definition filterStep :: "jsval \<Rightarrow> jsobject list \<Rightarrow> jsobject list" where
  "filterStep archived customers = array_filter (archivedFilter archived) customers"

subsection \<open>Sort\<close>

text \<open>
  \<^verbatim>\<open>array.sort(comparator)\<close>: ECMAScript (from the 2019 edition on) requires the sort
  to be stable, so for a comparator that is a total preorder the result is fixed: the
  elements in ascending order, those the comparator calls equal in their order of
  arrival. The insertion sort below computes that result; an element goes in front of
  the first element it is not greater than.
\<close>

fun insertBy :: "('a \<Rightarrow> 'a \<Rightarrow> int) \<Rightarrow> 'a \<Rightarrow> 'a list \<Rightarrow> 'a list" where
  "insertBy cmp x [] = [x]"
| "insertBy cmp x (y # ys) = (if cmp x y \<le> 0 then x # y # ys else y # insertBy cmp x ys)"

definition array_sort :: "('a \<Rightarrow> 'a \<Rightarrow> int) \<Rightarrow> 'a list \<Rightarrow> 'a list" where
  "array_sort cmp xs = foldr (insertBy cmp) xs []"

text \<open>The comparator of the listing command. \<open>sortKey\<close> is \<^verbatim>\<open>program.sort\<close>; strings
  compare lexicographically by their code units, as \<^verbatim>\<open><\<close> and \<^verbatim>\<open>>\<close> do in
  JavaScript.\<close>

definition resolvedKey :: "jsval \<Rightarrow> jsval" where
  "resolvedKey key = (if key = JStr (lit ''rate'') then JStr (lit ''hourly_rate'') else key)"

definition sortValue :: "engine \<Rightarrow> jsval \<Rightarrow> jsobject \<Rightarrow> jsstring" where
  "sortValue js sortKey a =
     toLowerCase js (String (getProp a (String (resolvedKey sortKey))))"

definition sortComparator :: "engine \<Rightarrow> jsval \<Rightarrow> jsobject \<Rightarrow> jsobject \<Rightarrow> int" where
  "sortComparator js sortKey a b =
     (if \<not> truthy sortKey then 0
      else (let val1 = sortValue js sortKey a; val2 = sortValue js sortKey b
            in if val1 > val2 then 1 else if val1 < val2 then - 1 else 0))"

definition sortStep :: "engine \<Rightarrow> jsval \<Rightarrow> jsobject list \<Rightarrow> jsobject list" where
  "sortStep js sortKey customers = array_sort (sortComparator js sortKey) customers"

subsection \<open>Columns\<close>

text \<open>
  The catalog of columns. \<^verbatim>\<open>formater.note\<close> and \<^verbatim>\<open>formater.budget\<close> belong to
  \<^verbatim>\<open>lib/formater\<close>, which is not among the sources: the pipeline takes them as
  parameters \<open>note\<close> and \<open>budget\<close>.
\<close>

datatype budget_type = CENTS

datatype formatter = NoteFormat | RateFormat

record columnDefinition =
  label :: jsstring
  attribute :: jsstring
  width :: "nat option"
  wrapWord :: "bool option"
  alignment :: "jsstring option"
  format :: "formatter option"

definition COLUMNS_OPTIONS :: "(jsstring \<times> columnDefinition) list" where
  "COLUMNS_OPTIONS =
     [(lit ''created_at'',
         \<lparr>label = lit ''created at'', attribute = lit ''created_at'', width = None,
          wrapWord = None, alignment = None, format = None\<rparr>),
      (lit ''id'',
         \<lparr>label = lit ''id'', attribute = lit ''id'', width = Some 10,
          wrapWord = None, alignment = Some (lit ''right''), format = None\<rparr>),
      (lit ''name'',
         \<lparr>label = lit ''name'', attribute = lit ''name'', width = None,
          wrapWord = None, alignment = None, format = None\<rparr>),
      (lit ''note'',
         \<lparr>label = lit ''Note'', attribute = lit ''note'', width = Some 50,
          wrapWord = Some True, alignment = Some (lit ''left''), format = Some NoteFormat\<rparr>),
      (lit ''rate'',
         \<lparr>label = lit ''rate'', attribute = lit ''hourly_rate'', width = Some 10,
          wrapWord = None, alignment = Some (lit ''right''), format = Some RateFormat\<rparr>),
      (lit ''updated_at'',
         \<lparr>label = lit ''updated at'', attribute = lit ''updated_at'', width = None,
          wrapWord = None, alignment = None, format = None\<rparr>)]"

text \<open>The format function of the column \<^verbatim>\<open>rate\<close>.\<close>

definition rate_format :: "(budget_type \<Rightarrow> jsval \<Rightarrow> jsval) \<Rightarrow> jsval \<Rightarrow> jsval" where
  "rate_format budget v =
     (if \<not> truthy v then JStr (lit ''-'') else budget CENTS (js_or v (JNum 0)))"

text \<open>
  \<^verbatim>\<open>COLUMNS_OPTIONS[attrName]\<close> reads a property of an object literal: an own property
  gives the column's definition, a name that \<^verbatim>\<open>Object.prototype\<close> defines gives the
  inherited member (a function or an object, none of which has a label, an attribute
  or a format), and any other name gives \<open>undefined\<close>.
\<close>

definition objectPrototypeKeys :: "jsstring list" where
  "objectPrototypeKeys =
     [lit ''constructor'', lit ''__defineGetter__'', lit ''__defineSetter__'',
      lit ''hasOwnProperty'', lit ''__lookupGetter__'', lit ''__lookupSetter__'',
      lit ''isPrototypeOf'', lit ''propertyIsEnumerable'', lit ''toString'',
      lit ''valueOf'', lit ''__proto__'', lit ''toLocaleString'']"

datatype column = Column columnDefinition | Inherited

definition columnsLookup :: "jsstring \<Rightarrow> column option" where
  "columnsLookup attrName =
     (case map_of COLUMNS_OPTIONS attrName of
        Some d \<Rightarrow> Some (Column d)
      | None \<Rightarrow> if attrName \<in> set objectPrototypeKeys then Some Inherited else None)"

fun column_label :: "column \<Rightarrow> jsval" where
  "column_label (Column d) = JStr (label d)"
| "column_label Inherited = JUndefined"

fun column_attribute :: "column \<Rightarrow> jsval" where
  "column_attribute (Column d) = JStr (attribute d)"
| "column_attribute Inherited = JUndefined"

fun column_format :: "column \<Rightarrow> formatter option" where
  "column_format (Column d) = format d"
| "column_format Inherited = None"

text \<open>
  The validation of the requested columns: the names are looked up from left to right,
  and the first one that gives \<open>undefined\<close> ends the process (\<open>Inl\<close>, with that
  name).
\<close>

fun resolveColumns :: "jsstring list \<Rightarrow> jsstring + column list" where
  "resolveColumns [] = Inr []"
| "resolveColumns (attrName # rest) =
     (case columnsLookup attrName of
        None \<Rightarrow> Inl attrName
      | Some columnDefinition \<Rightarrow>
          (case resolveColumns rest of
             Inl bad \<Rightarrow> Inl bad
           | Inr cs \<Rightarrow> Inr (columnDefinition # cs)))"

definition invalidColumnMessage :: "jsstring \<Rightarrow> jsstring" where
  "invalidColumnMessage attrName = lit ''Invalid column name '' @ [34] @ attrName @ [34]"

text \<open>A requested name that is neither a key of the catalog nor a name that
  \<^verbatim>\<open>Object.prototype\<close> defines.\<close>

definition unresolvable :: "jsstring \<Rightarrow> bool" where
  "unresolvable attrName =
     (attrName \<notin> fst ` set COLUMNS_OPTIONS \<and> attrName \<notin> set objectPrototypeKeys)"

subsection \<open>The grid\<close>

text \<open>
  A cell of the grid is a value, or the result of \<^verbatim>\<open>chalk.grey\<close> or \<^verbatim>\<open>chalk.bold\<close>
  on a value. chalk is a library; the model records which style was applied to which
  value and does not expand it into terminal codes.
\<close>

datatype cell = Plain jsval | Grey jsval | Bold jsval

definition cellValue ::
  "(jsval \<Rightarrow> jsobject \<Rightarrow> jsval) \<Rightarrow> (budget_type \<Rightarrow> jsval \<Rightarrow> jsval)
     \<Rightarrow> jsobject \<Rightarrow> column \<Rightarrow> jsval" where
  "cellValue note budget item columnDefinition =
     (let v = getProp item (String (column_attribute columnDefinition))
      in case column_format columnDefinition of
           Some NoteFormat \<Rightarrow> note v item
         | Some RateFormat \<Rightarrow> rate_format budget v
         | None \<Rightarrow> v)"

definition tableRow ::
  "(jsval \<Rightarrow> jsobject \<Rightarrow> jsval) \<Rightarrow> (budget_type \<Rightarrow> jsval \<Rightarrow> jsval)
     \<Rightarrow> column list \<Rightarrow> jsobject \<Rightarrow> cell list" where
  "tableRow note budget columns item =
     (let row = map (cellValue note budget item) columns
      in if truthy (getProp item (lit ''archived'')) then map Grey row else map Plain row)"

definition tableData ::
  "(jsval \<Rightarrow> jsobject \<Rightarrow> jsval) \<Rightarrow> (budget_type \<Rightarrow> jsval \<Rightarrow> jsval)
     \<Rightarrow> column list \<Rightarrow> jsobject list \<Rightarrow> cell list list" where
  "tableData note budget columns items =
     map (\<lambda>columnDefinition. Bold (column_label columnDefinition)) columns
       # map (tableRow note budget columns) items"

subsection \<open>The command\<close>

text \<open>
  What the listing command does is the sequence of its calls to the outside: the fetch
  of the customers, the lines it prints, the call of \<^verbatim>\<open>DataOutput.formatData\<close> whose
  result it prints, and the end of the process. \<^verbatim>\<open>lib/data-output\<close> is not among the
  sources, so the last call is recorded with its arguments and not expanded.
\<close>

record listOptions =
  opt_archived :: "jsstring option"
  opt_columns :: "jsstring option"
  opt_format :: jsval
  opt_search :: "jsstring option"
  opt_sort :: "jsstring option"

datatype list_event =
    GetCustomers "jsstring option"
  | ConsoleError jsstring
  | ConsoleLog jsstring
  | PrintFormatData "cell list list" jsval "column list"
  | ProcessExit nat

text \<open>\<open>response\<close> is the outcome of the fetch: the message of the error it was
  rejected with, or the customers.\<close>

definition customersCommand ::
  "engine \<Rightarrow> (jsval \<Rightarrow> jsobject \<Rightarrow> jsval) \<Rightarrow> (budget_type \<Rightarrow> jsval \<Rightarrow> jsval)
     \<Rightarrow> listOptions \<Rightarrow> jsstring + jsobject list \<Rightarrow> list_event list" where
  "customersCommand js note budget opts response =
     (case program_sort (opt_sort opts) of
        Inl message \<Rightarrow> [ConsoleError message, ProcessExit 2]
      | Inr sortKey \<Rightarrow>
          GetCustomers (opt_search opts) #
          (case response of
             Inl err \<Rightarrow> [ConsoleLog err, ProcessExit 1]
           | Inr customers \<Rightarrow>
               (let items = sortStep js (JStr sortKey)
                              (filterStep (program_archived js (opt_archived opts)) customers)
                in case resolveColumns (split_comma (program_columns (opt_columns opts))) of
                     Inl attrName \<Rightarrow>
                       [ConsoleError (invalidColumnMessage attrName), ProcessExit 2]
                   | Inr columns \<Rightarrow>
                       [PrintFormatData (tableData note budget columns items)
                          (opt_format opts) columns])))"

subsection \<open>The formatters and the renderer, from the specification\<close>

text \<open>
  Modelled from the spec: \<^verbatim>\<open>formater.budget\<close> of \<^verbatim>\<open>lib/formater\<close>, which is not among
  the sources. The specification's monetary formatter takes an integer number of cents
  and gives the amount in major units as a fixed-point decimal string with two decimal
  places (\<open>1050\<close> gives \<open>10.50\<close>). The specification says nothing about values
  that are not numbers; the model returns them as they are.
\<close>

definition formater_budget :: "budget_type \<Rightarrow> jsval \<Rightarrow> jsval" where
  "formater_budget ty v =
     (case v of
        JNum n \<Rightarrow>
          JStr ((if n < 0 then lit ''-'' else [])
                @ digits (nat \<bar>n\<bar> div 100) @ lit ''.''
                @ [48 + nat \<bar>n\<bar> mod 100 div 10, 48 + nat \<bar>n\<bar> mod 10])
      | _ \<Rightarrow> v)"

text \<open>
  Modelled from the spec: \<^verbatim>\<open>formater.note\<close> of \<^verbatim>\<open>lib/formater\<close>, which is not among
  the sources. The specification's text-wrap formatter gives back the string it is
  given; the wrapping is left to the renderer.
\<close>

definition formater_note :: "jsval \<Rightarrow> jsobject \<Rightarrow> jsval" where
  "formater_note v item = v"

text \<open>The style chalk was asked to give a cell.\<close>

datatype style = Unstyled | Dimmed | Bolded

fun cellStyle :: "cell \<Rightarrow> style" where
  "cellStyle (Plain v) = Unstyled"
| "cellStyle (Grey v) = Dimmed"
| "cellStyle (Bold v) = Bolded"

text \<open>
  Modelled from the spec: the Renderer, \<^verbatim>\<open>DataOutput.formatData\<close> of
  \<^verbatim>\<open>lib/data-output\<close>, which is not among the sources. Of the specification's three
  formats the table supports styling and keeps a cell's style; CSV and JSON carry the
  plain text of the cells only, so a style is dropped there without an error.
\<close>

datatype outputFormat = Table | Csv | Json

fun serializedStyle :: "outputFormat \<Rightarrow> cell \<Rightarrow> style" where
  "serializedStyle Table c = cellStyle c"
| "serializedStyle Csv c = Unstyled"
| "serializedStyle Json c = Unstyled"

section \<open>Creating a time entry\<close>

subsection \<open>The candidates\<close>

text \<open>
  A candidate of the name resolver: a display name and the identifier it stands for
  (\<^verbatim>\<open>value\<close> in the source), which is \<open>null\<close> for "no selection".
\<close>

record choice =
  name :: jsstring
  val :: jsval

text \<open>\<^verbatim>\<open>array.join(sep)\<close> turns each element into a string; \<open>null\<close> and
  \<open>undefined\<close> become the empty string.\<close>

definition joinElement :: "jsval \<Rightarrow> jsstring" where
  "joinElement v = (if v = JUndefined \<or> v = JNull then [] else String v)"

text \<open>
  \<^verbatim>\<open>getProjectChoices\<close> and \<^verbatim>\<open>getServiceChoices\<close>, applied to the projects and
  services that the API returned (the objects under \<^verbatim>\<open>project\<close> and \<^verbatim>\<open>service\<close> of
  the response's elements). \<open>dollar\<close> is the string \<^verbatim>\<open>chalk.yellow.bold('$')\<close>.
  The dash of the two synthetic names is U+2013, the code unit 8211.
\<close>

definition projectChoice :: "jsobject \<Rightarrow> choice" where
  "projectChoice project =
     (let nameParts = [getProp project (lit ''name'')];
          nameParts =
            (if truthy (getProp project (lit ''customer_name''))
             then nameParts
                    @ [JStr (lit ''('' @ String (getProp project (lit ''customer_name''))
                             @ lit '')'')]
             else nameParts)
      in \<lparr>name = join (map joinElement nameParts) (lit '' ''),
          val = getProp project (lit ''id'')\<rparr>)"

definition noProject :: choice where
  "noProject = \<lparr>name = 8211 # lit '' (no project)'', val = JNull\<rparr>"

definition getProjectChoices :: "jsobject list \<Rightarrow> choice list" where
  "getProjectChoices projects = map projectChoice projects @ [noProject]"

definition serviceChoice :: "jsstring \<Rightarrow> jsobject \<Rightarrow> choice" where
  "serviceChoice dollar service =
     (let nameParts = [getProp service (lit ''name'')];
          nameParts =
            (if truthy (getProp service (lit ''billable'')) then nameParts @ [JStr dollar]
             else nameParts)
      in \<lparr>name = join (map joinElement nameParts) (lit '' ''),
          val = getProp service (lit ''id'')\<rparr>)"

definition noService :: choice where
  "noService = \<lparr>name = 8211 # lit '' (no service)'', val = JNull\<rparr>"

definition getServiceChoices :: "jsstring \<Rightarrow> jsobject list \<Rightarrow> choice list" where
  "getServiceChoices dollar services = map (serviceChoice dollar) services @ [noService]"

subsection \<open>The name resolver\<close>

text \<open>
  \<^verbatim>\<open>checkResults\<close> returns the list of the single match, or prints and ends the
  process with code 1. The result is the lines printed and how the call ended. An
  argument that was not given on the command line is \<open>undefined\<close> (\<open>None\<close>); then
  \<^verbatim>\<open>query.toUpperCase()\<close> throws a TypeError for the first candidate with a truthy
  name.
\<close>

datatype failure = TypeError | FetchError

datatype 'a outcome = Returned 'a | Exited nat | Failed failure

definition noneFoundMessage :: "jsstring \<Rightarrow> jsstring \<Rightarrow> jsstring" where
  "noneFoundMessage ty query =
     lit ''No '' @ ty @ lit ''s found that match '' @ [34] @ query @ [34] @ lit ''.''"

definition multipleFoundMessage :: "jsstring \<Rightarrow> jsstring \<Rightarrow> jsstring" where
  "multipleFoundMessage ty query =
     lit ''Found multiple '' @ ty @ lit ''s matching  '' @ [34] @ query @ [34] @ lit '':''"

definition hintMessage :: "jsstring \<Rightarrow> jsstring" where
  "hintMessage ty =
     lit ''Use the exact name of an existing '' @ ty @ lit ''s. List available '' @ ty
       @ lit ''s using '' @ [34] @ lit ''mite '' @ ty @ lit ''s'' @ [34]"

definition matchesQuery :: "engine \<Rightarrow> jsstring \<Rightarrow> choice \<Rightarrow> bool" where
  "matchesQuery js query result =
     (name result \<noteq> []
      \<and> indexOf (toUpperCase js (name result)) (toUpperCase js query) > - 1)"

definition checkResults ::
  "engine \<Rightarrow> choice list \<Rightarrow> jsstring option \<Rightarrow> jsstring
     \<Rightarrow> jsstring list \<times> choice list outcome" where
  "checkResults js options query ty =
     (case query of
        None \<Rightarrow>
          (if list_ex (\<lambda>result. name result \<noteq> []) options then ([], Failed TypeError)
           else ([noneFoundMessage ty (lit ''undefined''), hintMessage ty], Exited 1))
      | Some q \<Rightarrow>
          (let searchResults = array_filter (matchesQuery js q) options
           in if length searchResults = 0
              then ([noneFoundMessage ty q, hintMessage ty], Exited 1)
              else if length searchResults = 1 then ([], Returned searchResults)
              else (multipleFoundMessage ty q
                      # map (\<lambda>current. lit ''- '' @ name current) searchResults
                      @ [hintMessage ty],
                    Exited 1)))"

text \<open>The match set in the words of the specification, for candidates with a name.\<close>

definition matchSet :: "engine \<Rightarrow> choice list \<Rightarrow> jsstring \<Rightarrow> choice list" where
  "matchSet js options query =
     filter (\<lambda>c. name c \<noteq> [] \<and> contains_ignoring_case js (name c) query) options"

subsection \<open>The direct mode and the creation\<close>

record entry =
  project_id :: jsval
  entry_note :: jsval
  minutes :: jsval
  service_id :: jsval
  date_at :: jsval

datatype new_event =
    GetProjects
  | GetServices
  | Prompt
  | Log jsstring
  | AddTimeEntry entry bool
  | Exit nat
  | UnhandledRejection failure

text \<open>An argument of the command line as a value.\<close>

definition argValue :: "jsstring option \<Rightarrow> jsval" where
  "argValue a = (case a of None \<Rightarrow> JUndefined | Some s \<Rightarrow> JStr s)"

text \<open>
  \<^verbatim>\<open>cliMode\<close>: both lists are fetched, then the project and the service are
  resolved, in this order. The result is what happened and how the promise ended.
  \<open>today\<close> is \<^verbatim>\<open>(new Date()).toISOString().slice(0, 10)\<close>. \<^verbatim>\<open>checkResults\<close>
  returns a list of one element only, of which \<^verbatim>\<open>[0]\<close> is read.
\<close>

definition cliMode ::
  "engine \<Rightarrow> jsstring \<Rightarrow> jsstring \<Rightarrow> jsstring + jsobject list \<Rightarrow> jsstring + jsobject list
     \<Rightarrow> jsstring option \<Rightarrow> jsstring option \<Rightarrow> jsstring option \<Rightarrow> jsstring option
     \<Rightarrow> jsstring option \<Rightarrow> new_event list \<times> entry outcome" where
  "cliMode js dollar today projectsResponse servicesResponse note project service mins date =
     (case (projectsResponse, servicesResponse) of
        (Inr ps, Inr ss) \<Rightarrow>
          (case checkResults js (getProjectChoices ps) project (lit ''project'') of
             (log1, Exited n) \<Rightarrow> ([GetProjects, GetServices] @ map Log log1, Exited n)
           | (log1, Failed f) \<Rightarrow> ([GetProjects, GetServices] @ map Log log1, Failed f)
           | (log1, Returned projects) \<Rightarrow>
               (case checkResults js (getServiceChoices dollar ss) service (lit ''service'') of
                  (log2, Exited n) \<Rightarrow>
                    ([GetProjects, GetServices] @ map Log log1 @ map Log log2, Exited n)
                | (log2, Failed f) \<Rightarrow>
                    ([GetProjects, GetServices] @ map Log log1 @ map Log log2, Failed f)
                | (log2, Returned services) \<Rightarrow>
                    ([GetProjects, GetServices] @ map Log log1 @ map Log log2,
                     Returned \<lparr>project_id = val (hd projects),
                               entry_note = argValue note,
                               minutes = argValue mins,
                               service_id = val (hd services),
                               date_at = js_or (argValue date) (JStr today)\<rparr>)))
      | _ \<Rightarrow> ([GetProjects, GetServices], Failed FetchError))"

text \<open>
  \<^verbatim>\<open>interactiveMode\<close> fetches the same lists and hands them to the prompt;
  \<open>answers\<close> is what the prompt resolves with.
\<close>

definition interactiveMode ::
  "entry \<Rightarrow> jsstring + jsobject list \<Rightarrow> jsstring + jsobject list
     \<Rightarrow> new_event list \<times> entry outcome" where
  "interactiveMode answers projectsResponse servicesResponse =
     (case (projectsResponse, servicesResponse) of
        (Inr ps, Inr ss) \<Rightarrow> ([GetProjects, GetServices, Prompt], Returned answers)
      | _ \<Rightarrow> ([GetProjects, GetServices], Failed FetchError))"

text \<open>
  The continuation of \<^verbatim>\<open>main\<close>, up to the call of \<^verbatim>\<open>mite.addTimeEntry\<close>; the
  boolean of the event is \<^verbatim>\<open>startTracker\<close>, and code unit 43 is the plus sign. What
  the callback of that call does with the answer of the API is not part of the model.
\<close>

definition createEntry :: "jsstring option \<Rightarrow> entry \<Rightarrow> new_event list" where
  "createEntry note entry0 =
     (let entry = entry0\<lparr>entry_note := js_or (entry_note entry0) (argValue note)\<rparr>
      in if \<not> truthy (minutes entry)
         then [Log (lit ''no time entry created due to empty project id or empty minutes'')]
         else (case minutes entry of
                 JStr m \<Rightarrow>
                   (if last m = 43
                    then [AddTimeEntry (entry\<lparr>minutes := JStr (butlast m)\<rparr>) True]
                    else [AddTimeEntry entry False])
               | _ \<Rightarrow> [UnhandledRejection TypeError]))"

definition main ::
  "engine \<Rightarrow> jsstring \<Rightarrow> jsstring \<Rightarrow> entry \<Rightarrow> jsstring + jsobject list
     \<Rightarrow> jsstring + jsobject list
     \<Rightarrow> jsstring option \<Rightarrow> jsstring option \<Rightarrow> jsstring option \<Rightarrow> jsstring option
     \<Rightarrow> jsstring option \<Rightarrow> new_event list" where
  "main js dollar today answers projectsResponse servicesResponse
        note project service mins date =
     (case (if \<not> truthy (argValue project)
            then interactiveMode answers projectsResponse servicesResponse
            else cliMode js dollar today projectsResponse servicesResponse
                   note project service mins date) of
        (events, Returned entry) \<Rightarrow> events @ createEntry note entry
      | (events, Exited n) \<Rightarrow> events @ [Exit n]
      | (events, Failed f) \<Rightarrow> events @ [UnhandledRejection f])"

fun isAddTimeEntry :: "new_event \<Rightarrow> bool" where
  "isAddTimeEntry (AddTimeEntry e startTracker) = True"
| "isAddTimeEntry _ = False"

section \<open>Completion for customer update\<close>

text \<open>
  A \<^verbatim>\<open>const\<close> binding exists from the start of its block and is uninitialized until
  its declaration has run; using it before throws a ReferenceError.
\<close>

datatype js_error = ReferenceError | ApiError jsstring

datatype 'a binding = Uninitialized | Initialized 'a

definition bindingValue :: "'a binding \<Rightarrow> js_error + 'a" where
  "bindingValue b = (case b of Uninitialized \<Rightarrow> Inl ReferenceError | Initialized v \<Rightarrow> Inr v)"

record completionItem =
  item_name :: jsstring
  item_description :: jsval

definition defaults :: "completionItem list" where
  "defaults =
     [\<lparr>item_name = lit ''--archived'',
        item_description = JStr (lit ''archive or unarchive a project'')\<rparr>,
      \<lparr>item_name = lit ''--hourly-rate'',
        item_description = JStr (lit ''change the hourly-rate'')\<rparr>,
      \<lparr>item_name = lit ''--name'',
        item_description = JStr (lit ''change the name of the project'')\<rparr>,
      \<lparr>item_name = lit ''--note'',
        item_description = JStr (lit ''change the note of the project'')\<rparr>,
      \<lparr>item_name = lit ''--update-entries'',
        item_description = JStr (lit ''update time entries when hourly_rate was changed'')\<rparr>,
      \<lparr>item_name = lit ''--help'', item_description = JStr (lit ''show help message'')\<rparr>]"

datatype completions = Words "jsstring list" | Items "completionItem list"

text \<open>
  The exported function, with the answer of \<^verbatim>\<open>miteApi.getCustomers\<close> as
  \<open>response\<close>. It is an async function: \<open>Inl\<close> is the error its promise is rejected
  with. \<^verbatim>\<open>line.match(/--archived/)\<close> holds when the text occurs in the line. The
  assignment \<^verbatim>\<open>customerOptions.archived = ...\<close> stands before the declaration of
  \<^verbatim>\<open>customerOptions\<close>, whose binding is uninitialized there.
\<close>

definition customerUpdateCompletion ::
  "jsstring \<Rightarrow> jsstring \<Rightarrow> jsstring + jsobject list \<Rightarrow> js_error + completions" where
  "customerUpdateCompletion prev line response =
     (if prev = lit ''--archived'' then Inr (Words [lit ''yes'', lit ''no''])
      else if prev = lit ''--name'' then Inr (Words [lit ''name''])
      else if prev = lit ''--note'' then Inr (Words [lit ''note''])
      else if prev = lit ''--hourly-rate'' then Inr (Words [lit ''0.00''])
      else
        (let options = array_filter (\<lambda>option. indexOf line (item_name option) = - 1) defaults;
             customerOptions = (Uninitialized :: completionItem list binding)
         in case (if indexOf line (lit ''--archived'') > - 1
                  then map_sum id (\<lambda>target. ()) (bindingValue customerOptions)
                  else Inr ()) of
              Inl e \<Rightarrow> Inl e
            | Inr u \<Rightarrow>
                (case response of
                   Inl err \<Rightarrow> Inl (ApiError err)
                 | Inr customers \<Rightarrow>
                     Inr (Items
                       (map (\<lambda>c. \<lparr>item_name = String (getProp c (lit ''id'')),
                                   item_description = getProp c (lit ''name'')\<rparr>) customers
                        @ options)))))"

section \<open>Facts about strings\<close>

lemma lit_eq_iff: "(lit s = lit t) = (s = t)"
proof -
  have "inj (of_char :: char \<Rightarrow> nat)" by (rule injI) simp
  then show ?thesis unfolding lit_def by (rule inj_map_eq_map)
qed

lemma array_indexOf_ge: "- 1 \<le> array_indexOf xs x"
  by (induction xs) (auto simp: Let_def)

lemma array_indexOf_mem: "(array_indexOf xs x > - 1) = (x \<in> set xs)"
proof (induction xs)
  case Nil
  show ?case by simp
next
  case (Cons y ys)
  have "- 1 \<le> array_indexOf ys x" by (rule array_indexOf_ge)
  with Cons show ?case by (auto simp: Let_def)
qed

lemma array_indexOf_absent: "(array_indexOf xs x = - 1) = (x \<notin> set xs)"
  using array_indexOf_mem [of xs x] array_indexOf_ge [of xs x] by linarith

lemma indexOf_ge: "- 1 \<le> indexOf s t"
  by (induction s) (auto simp: Let_def)

lemma indexOf_sublist: "(indexOf s t > - 1) = sublist t s"
proof (induction s)
  case Nil
  show ?case by simp
next
  case (Cons c s)
  have "- 1 \<le> indexOf s t" by (rule indexOf_ge)
  with Cons show ?case by (auto simp: Let_def sublist_Cons_right)
qed

lemma toLowerChar_same_letter: "(toLowerChar c = toLowerChar d) = same_letter c d"
  by (auto simp: toLowerChar_def same_letter_def is_upper_def)

lemma toUpperChar_same_letter: "(toUpperChar c = toUpperChar d) = same_letter c d"
  by (auto simp: toUpperChar_def same_letter_def is_upper_def)

lemma map_toLowerChar_ci_equal: "(map toLowerChar s = map toLowerChar t) = ci_equal s t"
  unfolding ci_equal_def
proof (induction s arbitrary: t)
  case Nil
  show ?case by auto
next
  case (Cons c s)
  show ?case by (cases t) (auto simp: Cons.IH toLowerChar_same_letter)
qed

lemma map_toUpperChar_ci_equal: "(map toUpperChar s = map toUpperChar t) = ci_equal s t"
  unfolding ci_equal_def
proof (induction s arbitrary: t)
  case Nil
  show ?case by auto
next
  case (Cons c s)
  show ?case by (cases t) (auto simp: Cons.IH toUpperChar_same_letter)
qed

lemma ascii_faithful_ascii_engine: "ascii_faithful ascii_engine"
  by (simp add: ascii_faithful_def ascii_engine_def)

lemma ascii_lower:
  "ascii_faithful js \<Longrightarrow> ascii s \<Longrightarrow> toLowerCase js s = map toLowerChar s"
  by (simp add: ascii_faithful_def)

lemma ascii_upper:
  "ascii_faithful js \<Longrightarrow> ascii s \<Longrightarrow> toUpperCase js s = map toUpperChar s"
  by (simp add: ascii_faithful_def)

lemma ascii_lower_ci_equal:
  assumes "ascii_faithful js" and "ascii s" and "ascii t"
  shows "(toLowerCase js s = toLowerCase js t) = ci_equal s t"
  using assms by (simp add: ascii_lower map_toLowerChar_ci_equal)

lemma map_append_split:
  "map f xs = ys @ zs \<Longrightarrow> \<exists>us vs. xs = us @ vs \<and> map f us = ys \<and> map f vs = zs"
  by (auto simp: map_eq_append_conv)

lemma ci_contains_upper: "ci_contains s q = sublist (map toUpperChar q) (map toUpperChar s)"
proof
  assume "ci_contains s q"
  then obtain ps m ss where s: "s = ps @ m @ ss" and m: "ci_equal m q"
    unfolding ci_contains_def by blast
  from m have "map toUpperChar m = map toUpperChar q" by (simp add: map_toUpperChar_ci_equal)
  with s have "map toUpperChar s
      = map toUpperChar ps @ map toUpperChar q @ map toUpperChar ss"
    by simp
  then show "sublist (map toUpperChar q) (map toUpperChar s)" unfolding sublist_def by blast
next
  assume "sublist (map toUpperChar q) (map toUpperChar s)"
  then obtain ps' ss' where "map toUpperChar s = ps' @ map toUpperChar q @ ss'"
    unfolding sublist_def by blast
  then obtain ps r where s1: "s = ps @ r" and r: "map toUpperChar r = map toUpperChar q @ ss'"
    using map_append_split by blast
  from r obtain m ss where s2: "r = m @ ss" and m: "map toUpperChar m = map toUpperChar q"
    using map_append_split by blast
  from m have "ci_equal m q" by (simp add: map_toUpperChar_ci_equal)
  with s1 s2 show "ci_contains s q" unfolding ci_contains_def by blast
qed

lemma ci_contains_code [code]:
  "ci_contains s q = (indexOf (map toUpperChar s) (map toUpperChar q) > - 1)"
  by (simp add: ci_contains_upper indexOf_sublist)

lemma contains_ignoring_case_code [code]:
  "contains_ignoring_case js s q = (indexOf (toUpperCase js s) (toUpperCase js q) > - 1)"
  by (simp add: contains_ignoring_case_def indexOf_sublist)

lemma ascii_contains:
  assumes "ascii_faithful js" and "ascii s" and "ascii q"
  shows "contains_ignoring_case js s q = ci_contains s q"
  using assms by (simp add: contains_ignoring_case_def ascii_upper ci_contains_upper)

lemma archivedTokens_ascii: "t \<in> set archivedTokens \<Longrightarrow> ascii t"
  by (auto simp: archivedTokens_def ascii_def lit_def)

lemma archivedTokens_lower: "t \<in> set archivedTokens \<Longrightarrow> map toLowerChar t = t"
  by (auto simp: archivedTokens_def lit_def toLowerChar_def)

section \<open>The archived option\<close>

text \<open>
  C5. The coercion of \<^verbatim>\<open>--archived\<close> maps a string to \<open>true\<close> exactly when its
  lower-cased form is one of the tokens true, yes, ja, ok, 1, and to \<open>false\<close>
  otherwise, in the listing command and in \<^verbatim>\<open>customer update\<close> alike; for an ASCII
  string this is to say that the string is one of the tokens up to case. When the
  option is absent the listing command, whose filter it sets, keeps the value
  \<open>null\<close>.
\<close>

theorem archived_option_tokens:
  "archivedCoercion js (JStr s) = JBool (toLowerCase js s \<in> set archivedTokens)
   \<and> (ascii_faithful js \<and> ascii s \<longrightarrow>
        archivedCoercion js (JStr s)
          = JBool (ci_equal s (lit ''true'') \<or> ci_equal s (lit ''yes'')
                   \<or> ci_equal s (lit ''ja'') \<or> ci_equal s (lit ''ok'')
                   \<or> ci_equal s (lit ''1'')))
   \<and> program_archived js (Some s) = archivedCoercion js (JStr s)
   \<and> update_archived js (Some s) = archivedCoercion js (JStr s)
   \<and> program_archived js None = JNull"
proof (intro conjI impI)
  show general: "archivedCoercion js (JStr s) = JBool (toLowerCase js s \<in> set archivedTokens)"
    by (simp add: archivedCoercion_def array_indexOf_mem)
  assume h: "ascii_faithful js \<and> ascii s"
  have low: "\<And>t. t \<in> set archivedTokens \<Longrightarrow> (map toLowerChar s = t) = ci_equal s t"
    using archivedTokens_lower map_toLowerChar_ci_equal by metis
  from h have "(toLowerCase js s \<in> set archivedTokens)
        = (\<exists>t \<in> set archivedTokens. map toLowerChar s = t)"
    by (simp add: ascii_lower)
  also have "\<dots> = (\<exists>t \<in> set archivedTokens. ci_equal s t)"
    using low by blast
  also have "\<dots> = (ci_equal s (lit ''true'') \<or> ci_equal s (lit ''yes'')
                   \<or> ci_equal s (lit ''ja'') \<or> ci_equal s (lit ''ok'')
                   \<or> ci_equal s (lit ''1''))"
    by (simp add: archivedTokens_def)
  finally show "archivedCoercion js (JStr s)
          = JBool (ci_equal s (lit ''true'') \<or> ci_equal s (lit ''yes'')
                   \<or> ci_equal s (lit ''ja'') \<or> ci_equal s (lit ''ok'')
                   \<or> ci_equal s (lit ''1''))"
    by (simp add: general)
qed (simp_all add: program_archived_def update_archived_def optionValue_def)

theorem archived_option_tokens_witness:
  "ascii_faithful ascii_engine \<and> ascii (lit ''YES'')
   \<and> archivedCoercion ascii_engine (JStr (lit ''YES''))
       = JBool (ci_equal (lit ''YES'') (lit ''true'') \<or> ci_equal (lit ''YES'') (lit ''yes'')
                \<or> ci_equal (lit ''YES'') (lit ''ja'') \<or> ci_equal (lit ''YES'') (lit ''ok'')
                \<or> ci_equal (lit ''YES'') (lit ''1''))"
proof -
  have a: "ascii_faithful ascii_engine" by (rule ascii_faithful_ascii_engine)
  have b: "ascii (lit ''YES'')" by code_simp
  have c: "archivedCoercion ascii_engine (JStr (lit ''YES''))
       = JBool (ci_equal (lit ''YES'') (lit ''true'') \<or> ci_equal (lit ''YES'') (lit ''yes'')
                \<or> ci_equal (lit ''YES'') (lit ''ja'') \<or> ci_equal (lit ''YES'') (lit ''ok'')
                \<or> ci_equal (lit ''YES'') (lit ''1''))"
    by (rule archived_option_tokens [THEN conjunct2, THEN conjunct1, THEN mp])
       (intro conjI a b)
  show ?thesis by (intro conjI a b c)
qed

section \<open>The rate formatter\<close>

text \<open>
  C6. The format function of the rate column gives the placeholder \<open>-\<close> for every
  falsy value, among them \<open>0\<close>, \<open>null\<close> and a missing value, whatever
  \<^verbatim>\<open>formater.budget\<close> is, and so never \<open>0.00\<close>; with the monetary formatter of the
  specification, \<open>1050\<close> cents give \<open>10.50\<close>.
\<close>

theorem rate_format_placeholder:
  "(\<not> truthy v \<longrightarrow> rate_format budget v = JStr (lit ''-''))
   \<and> rate_format budget (JNum 0) = JStr (lit ''-'')
   \<and> rate_format budget JNull = JStr (lit ''-'')
   \<and> rate_format budget JUndefined = JStr (lit ''-'')
   \<and> rate_format budget (JNum 0) \<noteq> JStr (lit ''0.00'')
   \<and> rate_format formater_budget (JNum 1050) = JStr (lit ''10.50'')"
proof -
  have "formater_budget CENTS (JNum 1050) = JStr (lit ''10.50'')" by code_simp
  moreover have "lit ''-'' \<noteq> lit ''0.00''" by (simp add: lit_eq_iff)
  ultimately show ?thesis by (simp add: rate_format_def js_or_def)
qed

theorem rate_format_placeholder_witness:
  "\<not> truthy (JStr []) \<and> rate_format formater_budget (JStr []) = JStr (lit ''-'')"
proof -
  have h: "\<not> truthy (JStr [])" by simp
  from rate_format_placeholder [of "JStr []" formater_budget] h
  have "rate_format formater_budget (JStr []) = JStr (lit ''-'')" by blast
  with h show ?thesis by (rule conjI)
qed

section \<open>The filter step\<close>

lemma foldl_keep:
  "foldl (\<lambda>kept x. if p x then kept @ [x] else kept) acc xs = acc @ filter p xs"
  by (induction xs arbitrary: acc) auto

lemma array_filter_filter: "array_filter p xs = filter p xs"
  by (simp add: array_filter_def foldl_keep)

lemma archivedFilter_null: "archivedFilter JNull = (\<lambda>customer. True)"
  by (simp add: fun_eq_iff archivedFilter_def)

lemma archivedFilter_bool:
  "archivedFilter (JBool b) = (\<lambda>customer. getProp customer (lit ''archived'') = JBool b)"
  by (simp add: fun_eq_iff archivedFilter_def)

text \<open>
  C3. The filter step gives exactly the records that satisfy the predicate, in their
  original order (for any callback, and so for the one of the listing command). With
  the archived option unset (\<open>null\<close>) every record passes; with it set to a boolean,
  exactly the records whose \<open>archived\<close> attribute is that boolean pass.
\<close>

theorem filter_step_exact:
  "array_filter p R = filter p R
   \<and> filterStep archived R = filter (archivedFilter archived) R
   \<and> subseq (filterStep archived R) R
   \<and> filterStep JNull R = R
   \<and> filterStep (JBool b) R
       = filter (\<lambda>customer. getProp customer (lit ''archived'') = JBool b) R"
  by (simp add: filterStep_def array_filter_filter archivedFilter_null archivedFilter_bool)

section \<open>The sort step\<close>

lemma sortComparator_le:
  "truthy k \<Longrightarrow> (sortComparator js k a b \<le> 0) = (sortValue js k a \<le> sortValue js k b)"
  by (auto simp: sortComparator_def Let_def)

lemma sortComparator_zero:
  "truthy k \<Longrightarrow> (sortComparator js k a b = 0) = (sortValue js k a = sortValue js k b)"
  by (auto simp: sortComparator_def Let_def)

lemma insertBy_insort:
  "truthy k \<Longrightarrow> insertBy (sortComparator js k) x ys = insort_key (sortValue js k) x ys"
  by (induction ys) (simp_all add: sortComparator_le)

lemma sortStep_sort_key:
  assumes "truthy k"
  shows "sortStep js k R = sort_key (sortValue js k) R"
proof -
  have "insertBy (sortComparator js k) = insort_key (sortValue js k)"
    using assms by (intro ext) (rule insertBy_insort)
  then show ?thesis by (simp add: sortStep_def array_sort_def sort_key_def)
qed

lemma SORT_OPTIONS_nonempty: "k \<in> set SORT_OPTIONS \<Longrightarrow> k \<noteq> []"
  by (auto simp: SORT_OPTIONS_def lit_def)

lemma program_sort_truthy:
  assumes "program_sort given = Inr k"
  shows "truthy (JStr k)"
proof (cases given)
  case None
  with assms have "k = lit ''name''" by (simp add: program_sort_def optionValue_def)
  then show ?thesis by (simp add: lit_def)
next
  case (Some s)
  with assms have "k \<in> set SORT_OPTIONS"
    by (auto simp: program_sort_def optionValue_def sortCoercion_def array_indexOf_absent
        split: if_splits)
  then show ?thesis by (simp add: SORT_OPTIONS_nonempty)
qed

text \<open>
  C2, as the code has it. The command always runs with a sort key: the value of
  \<^verbatim>\<open>--sort\<close>, which is one of the sort options, or \<^verbatim>\<open>name\<close> when the option is
  absent; the branch of the comparator for a missing key is never taken. The sort step
  returns the records in ascending order of the lower-cased string form of the
  resolved attribute; it is a rearrangement of its input that keeps the records with
  equal keys in their input order, and the comparator returns equal exactly for equal
  keys, which for ASCII strings are the string forms that are the same up to case. The
  key \<open>rate\<close> reads the attribute \<open>hourly_rate\<close>; every other key reads the
  attribute of its own name.
\<close>

theorem sort_step_stable:
  "(program_sort given = Inr k \<longrightarrow>
      truthy (JStr k)
      \<and> sorted (map (sortValue js (JStr k)) (sortStep js (JStr k) R))
      \<and> mset (sortStep js (JStr k) R) = mset R
      \<and> (\<forall>v. filter (\<lambda>r. sortValue js (JStr k) r = v) (sortStep js (JStr k) R)
               = filter (\<lambda>r. sortValue js (JStr k) r = v) R)
      \<and> (sortComparator js (JStr k) a b = 0)
          = (sortValue js (JStr k) a = sortValue js (JStr k) b))
   \<and> program_sort None = Inr (lit ''name'')
   \<and> sortValue js (JStr attr) a
       = toLowerCase js
           (String (getProp a (if attr = lit ''rate'' then lit ''hourly_rate'' else attr)))
   \<and> (ascii_faithful js
       \<and> ascii (String (getProp a (String (resolvedKey (JStr attr)))))
       \<and> ascii (String (getProp b (String (resolvedKey (JStr attr))))) \<longrightarrow>
        (sortValue js (JStr attr) a = sortValue js (JStr attr) b)
          = ci_equal (String (getProp a (String (resolvedKey (JStr attr)))))
                     (String (getProp b (String (resolvedKey (JStr attr))))))"
proof (intro conjI impI)
  assume "program_sort given = Inr k"
  then show t: "truthy (JStr k)" by (rule program_sort_truthy)
  show "sorted (map (sortValue js (JStr k)) (sortStep js (JStr k) R))"
    by (simp add: sortStep_sort_key [OF t])
  show "mset (sortStep js (JStr k) R) = mset R"
    by (simp add: sortStep_sort_key [OF t])
  show "\<forall>v. filter (\<lambda>r. sortValue js (JStr k) r = v) (sortStep js (JStr k) R)
               = filter (\<lambda>r. sortValue js (JStr k) r = v) R"
    by (simp add: sortStep_sort_key [OF t] sort_key_stable)
  show "(sortComparator js (JStr k) a b = 0)
          = (sortValue js (JStr k) a = sortValue js (JStr k) b)"
    by (rule sortComparator_zero [OF t])
next
  show "program_sort None = Inr (lit ''name'')"
    by (simp add: program_sort_def optionValue_def)
next
  show "sortValue js (JStr attr) a
       = toLowerCase js
           (String (getProp a (if attr = lit ''rate'' then lit ''hourly_rate'' else attr)))"
    by (simp add: sortValue_def resolvedKey_def)
next
  assume "ascii_faithful js
       \<and> ascii (String (getProp a (String (resolvedKey (JStr attr)))))
       \<and> ascii (String (getProp b (String (resolvedKey (JStr attr)))))"
  then show "(sortValue js (JStr attr) a = sortValue js (JStr attr) b)
          = ci_equal (String (getProp a (String (resolvedKey (JStr attr)))))
                     (String (getProp b (String (resolvedKey (JStr attr)))))"
    by (simp add: sortValue_def ascii_lower_ci_equal)
qed

text \<open>Two customers, \<open>B\<close> before \<open>a\<close>, listed without \<^verbatim>\<open>--sort\<close>.\<close>

theorem sort_step_stable_witness:
  "program_sort None = Inr (lit ''name'')
   \<and> sorted (map (sortValue ascii_engine (JStr (lit ''name'')))
        (sortStep ascii_engine (JStr (lit ''name''))
           [[(lit ''id'', JNum 1), (lit ''name'', JStr (lit ''B''))],
            [(lit ''id'', JNum 2), (lit ''name'', JStr (lit ''a''))]]))
   \<and> ascii_faithful ascii_engine
   \<and> ascii (String (getProp [(lit ''id'', JNum 1), (lit ''name'', JStr (lit ''B''))]
        (String (resolvedKey (JStr (lit ''name''))))))
   \<and> ascii (String (getProp [(lit ''id'', JNum 3), (lit ''name'', JStr (lit ''b''))]
        (String (resolvedKey (JStr (lit ''name''))))))
   \<and> (sortValue ascii_engine (JStr (lit ''name''))
          [(lit ''id'', JNum 1), (lit ''name'', JStr (lit ''B''))]
        = sortValue ascii_engine (JStr (lit ''name''))
          [(lit ''id'', JNum 3), (lit ''name'', JStr (lit ''b''))])
       = ci_equal
           (String (getProp [(lit ''id'', JNum 1), (lit ''name'', JStr (lit ''B''))]
              (String (resolvedKey (JStr (lit ''name''))))))
           (String (getProp [(lit ''id'', JNum 3), (lit ''name'', JStr (lit ''b''))]
              (String (resolvedKey (JStr (lit ''name''))))))"
proof -
  let ?B = "[(lit ''id'', JNum 1), (lit ''name'', JStr (lit ''B''))]"
  let ?a = "[(lit ''id'', JNum 2), (lit ''name'', JStr (lit ''a''))]"
  let ?b = "[(lit ''id'', JNum 3), (lit ''name'', JStr (lit ''b''))]"
  note T = sort_step_stable [of None "lit ''name''" ascii_engine "[?B, ?a]" ?B ?b
      "lit ''name''"]
  have h1: "program_sort None = Inr (lit ''name'')"
    by (simp add: program_sort_def optionValue_def)
  have h2: "ascii_faithful ascii_engine" by (rule ascii_faithful_ascii_engine)
  have h3: "ascii (String (getProp ?B (String (resolvedKey (JStr (lit ''name''))))))"
    by code_simp
  have h4: "ascii (String (getProp ?b (String (resolvedKey (JStr (lit ''name''))))))"
    by code_simp
  have s: "sorted (map (sortValue ascii_engine (JStr (lit ''name'')))
        (sortStep ascii_engine (JStr (lit ''name'')) [?B, ?a]))"
    by (rule T [THEN conjunct1, THEN mp, OF h1, THEN conjunct2, THEN conjunct1])
  have e: "(sortValue ascii_engine (JStr (lit ''name'')) ?B
        = sortValue ascii_engine (JStr (lit ''name'')) ?b)
       = ci_equal
           (String (getProp ?B (String (resolvedKey (JStr (lit ''name''))))))
           (String (getProp ?b (String (resolvedKey (JStr (lit ''name''))))))"
    by (rule T [THEN conjunct2, THEN conjunct2, THEN conjunct2, THEN mp])
       (intro conjI h2 h3 h4)
  show ?thesis by (intro conjI h1 s h2 h3 h4 e)
qed

text \<open>
  The claim as it was stated fails where it says that nothing is reordered when no sort
  key is configured: without \<^verbatim>\<open>--sort\<close> the key is \<^verbatim>\<open>name\<close>, and the customer
  \<open>B\<close>, fetched first, is listed after the customer \<open>a\<close>.
\<close>

theorem default_sort_reorders:
  "program_sort (opt_sort
      \<lparr>opt_archived = None, opt_columns = Some (lit ''name''),
       opt_format = JStr (lit ''table''), opt_search = None, opt_sort = None\<rparr>)
     = Inr (lit ''name'')
   \<and> sortStep ascii_engine (JStr (lit ''name''))
       [[(lit ''id'', JNum 1), (lit ''name'', JStr (lit ''B''))],
        [(lit ''id'', JNum 2), (lit ''name'', JStr (lit ''a''))]]
     = [[(lit ''id'', JNum 2), (lit ''name'', JStr (lit ''a''))],
        [(lit ''id'', JNum 1), (lit ''name'', JStr (lit ''B''))]]
   \<and> customersCommand ascii_engine formater_note formater_budget
       \<lparr>opt_archived = None, opt_columns = Some (lit ''name''),
        opt_format = JStr (lit ''table''), opt_search = None, opt_sort = None\<rparr>
       (Inr [[(lit ''id'', JNum 1), (lit ''name'', JStr (lit ''B''))],
             [(lit ''id'', JNum 2), (lit ''name'', JStr (lit ''a''))]])
     = [GetCustomers None,
        PrintFormatData
          [[Bold (JStr (lit ''name''))], [Plain (JStr (lit ''a''))], [Plain (JStr (lit ''B''))]]
          (JStr (lit ''table''))
          [Column \<lparr>label = lit ''name'', attribute = lit ''name'', width = None,
                    wrapWord = None, alignment = None, format = None\<rparr>]]"
  by code_simp

section \<open>The grid and its styles\<close>

lemma tableRow_length: "length (tableRow note budget columns item) = length columns"
  by (simp add: tableRow_def Let_def)

lemma tableRow_archived:
  "truthy (getProp item (lit ''archived'')) \<Longrightarrow> c \<in> set (tableRow note budget columns item)
     \<Longrightarrow> cellStyle c = Dimmed"
  by (auto simp: tableRow_def Let_def)

text \<open>
  C7. The row of a record whose \<open>archived\<close> attribute is truthy has one cell for
  each selected column, whatever the columns are, and chalk.grey is applied to every
  one of them; the header has chalk.bold applied to every label and does not depend on
  the records. With the renderer of the specification the table keeps these styles and
  CSV and JSON drop them.
\<close>

theorem archived_rows_dimmed:
  "(i < length items \<and> truthy (getProp (items ! i) (lit ''archived'')) \<longrightarrow>
      length (tableData note budget columns items ! Suc i) = length columns
      \<and> (\<forall>c \<in> set (tableData note budget columns items ! Suc i).
            cellStyle c = Dimmed \<and> serializedStyle Table c = Dimmed
            \<and> serializedStyle Csv c = Unstyled \<and> serializedStyle Json c = Unstyled))
   \<and> length (tableData note budget columns items) = Suc (length items)
   \<and> hd (tableData note budget columns items)
       = map (\<lambda>columnDefinition. Bold (column_label columnDefinition)) columns
   \<and> (\<forall>c \<in> set (hd (tableData note budget columns items)).
         cellStyle c = Bolded \<and> serializedStyle Table c = Bolded)"
proof (intro conjI impI ballI)
  assume h: "i < length items \<and> truthy (getProp (items ! i) (lit ''archived''))"
  then have row: "tableData note budget columns items ! Suc i
                  = tableRow note budget columns (items ! i)"
    by (simp add: tableData_def)
  show "length (tableData note budget columns items ! Suc i) = length columns"
    by (simp add: row tableRow_length)
  fix c assume "c \<in> set (tableData note budget columns items ! Suc i)"
  then have "cellStyle c = Dimmed" using h row tableRow_archived by metis
  then show "cellStyle c = Dimmed" "serializedStyle Table c = Dimmed"
    "serializedStyle Csv c = Unstyled" "serializedStyle Json c = Unstyled"
    by simp_all
next
  show "length (tableData note budget columns items) = Suc (length items)"
    by (simp add: tableData_def)
  show "hd (tableData note budget columns items)
       = map (\<lambda>columnDefinition. Bold (column_label columnDefinition)) columns"
    by (simp add: tableData_def)
next
  fix c assume "c \<in> set (hd (tableData note budget columns items))"
  then have "cellStyle c = Bolded" by (auto simp: tableData_def)
  then show "cellStyle c = Bolded" "serializedStyle Table c = Bolded" by simp_all
qed

theorem archived_rows_dimmed_witness:
  "(1::nat) < length
      [[(lit ''id'', JNum 1), (lit ''name'', JStr (lit ''B'')), (lit ''archived'', JBool False)],
       [(lit ''id'', JNum 2), (lit ''name'', JStr (lit ''A'')), (lit ''archived'', JBool True)]]
   \<and> truthy (getProp
        ([[(lit ''id'', JNum 1), (lit ''name'', JStr (lit ''B'')),
           (lit ''archived'', JBool False)],
          [(lit ''id'', JNum 2), (lit ''name'', JStr (lit ''A'')),
           (lit ''archived'', JBool True)]] ! 1)
        (lit ''archived''))
   \<and> length (tableData formater_note formater_budget
        [Column \<lparr>label = lit ''name'', attribute = lit ''name'', width = None,
                  wrapWord = None, alignment = None, format = None\<rparr>]
        [[(lit ''id'', JNum 1), (lit ''name'', JStr (lit ''B'')),
          (lit ''archived'', JBool False)],
         [(lit ''id'', JNum 2), (lit ''name'', JStr (lit ''A'')),
          (lit ''archived'', JBool True)]] ! Suc 1)
       = length
           [Column \<lparr>label = lit ''name'', attribute = lit ''name'', width = None,
                     wrapWord = None, alignment = None, format = None\<rparr>]"
proof -
  let ?items =
    "[[(lit ''id'', JNum 1), (lit ''name'', JStr (lit ''B'')), (lit ''archived'', JBool False)],
      [(lit ''id'', JNum 2), (lit ''name'', JStr (lit ''A'')), (lit ''archived'', JBool True)]]"
  let ?columns = "[Column \<lparr>label = lit ''name'', attribute = lit ''name'', width = None,
                            wrapWord = None, alignment = None, format = None\<rparr>]"
  have h1: "(1::nat) < length ?items" by simp
  have h2: "truthy (getProp (?items ! 1) (lit ''archived''))" by code_simp
  have r: "length (tableData formater_note formater_budget ?columns ?items ! Suc 1)
             = length ?columns"
    by (rule archived_rows_dimmed [THEN conjunct1, THEN mp, THEN conjunct1])
       (intro conjI h1 h2)
  show ?thesis by (intro conjI h1 h2 r)
qed

section \<open>Invalid options\<close>

lemma program_sort_invalid:
  "s \<notin> set SORT_OPTIONS \<Longrightarrow> program_sort (Some s) = Inl (invalidSortMessage s)"
  by (simp add: program_sort_def optionValue_def sortCoercion_def array_indexOf_absent)

lemma program_sort_valid:
  "given = None \<or> (\<exists>s \<in> set SORT_OPTIONS. given = Some s) \<Longrightarrow> \<exists>k. program_sort given = Inr k"
  by (auto simp: program_sort_def optionValue_def sortCoercion_def array_indexOf_absent)

lemma columnsLookup_None: "(columnsLookup a = None) = unresolvable a"
proof (cases "map_of COLUMNS_OPTIONS a")
  case None
  then have "a \<notin> fst ` set COLUMNS_OPTIONS" by (simp add: map_of_eq_None_iff)
  with None show ?thesis by (simp add: columnsLookup_def unresolvable_def)
next
  case (Some d)
  then have "a \<in> fst ` set COLUMNS_OPTIONS"
    using map_of_eq_None_iff [of COLUMNS_OPTIONS a] by simp
  with Some show ?thesis by (simp add: columnsLookup_def unresolvable_def)
qed

lemma resolveColumns_find:
  "find unresolvable names = Some bad \<Longrightarrow> resolveColumns names = Inl bad"
proof (induction names)
  case Nil
  then show ?case by simp
next
  case (Cons n names)
  show ?case
  proof (cases "unresolvable n")
    case True
    then have "columnsLookup n = None" by (simp add: columnsLookup_None)
    with True Cons.prems show ?thesis by simp
  next
    case False
    then obtain c where c: "columnsLookup n = Some c"
      using columnsLookup_None [of n] by (cases "columnsLookup n") auto
    from False Cons have "resolveColumns names = Inl bad" by simp
    with c show ?thesis by simp
  qed
qed

text \<open>
  C4, as the code has it. A value of \<^verbatim>\<open>--sort\<close> that is not a sort option is reported
  before the customers are fetched: the command prints the message on the error stream
  and exits with code 2, and does nothing else. A requested column that is
  unresolvable is reported after the customers have been fetched: when the fetch has
  succeeded, the command prints the first such name on the error stream and exits with
  code 2, without building a grid or printing on the standard output.
\<close>

theorem invalid_options_exit_2:
  "(opt_sort opts = Some s \<and> s \<notin> set SORT_OPTIONS \<longrightarrow>
      customersCommand js note budget opts response
        = [ConsoleError (invalidSortMessage s), ProcessExit 2])
   \<and> ((opt_sort opts = None \<or> (\<exists>s \<in> set SORT_OPTIONS. opt_sort opts = Some s))
       \<and> find unresolvable (split_comma (program_columns (opt_columns opts))) = Some bad \<longrightarrow>
      customersCommand js note budget opts (Inr customers)
        = [GetCustomers (opt_search opts), ConsoleError (invalidColumnMessage bad),
           ProcessExit 2])"
proof (intro conjI impI)
  assume "opt_sort opts = Some s \<and> s \<notin> set SORT_OPTIONS"
  then show "customersCommand js note budget opts response
        = [ConsoleError (invalidSortMessage s), ProcessExit 2]"
    by (simp add: customersCommand_def program_sort_invalid)
next
  assume h: "(opt_sort opts = None \<or> (\<exists>s \<in> set SORT_OPTIONS. opt_sort opts = Some s))
       \<and> find unresolvable (split_comma (program_columns (opt_columns opts))) = Some bad"
  then obtain k where k: "program_sort (opt_sort opts) = Inr k"
    using program_sort_valid by blast
  from h have "resolveColumns (split_comma (program_columns (opt_columns opts))) = Inl bad"
    by (simp add: resolveColumns_find)
  with k show "customersCommand js note budget opts (Inr customers)
        = [GetCustomers (opt_search opts), ConsoleError (invalidColumnMessage bad),
           ProcessExit 2]"
    by (simp add: customersCommand_def Let_def)
qed

theorem invalid_options_exit_2_witness:
  "opt_sort \<lparr>opt_archived = None, opt_columns = None, opt_format = JStr (lit ''table''),
             opt_search = None, opt_sort = Some (lit ''foo'')\<rparr> = Some (lit ''foo'')
   \<and> lit ''foo'' \<notin> set SORT_OPTIONS
   \<and> customersCommand ascii_engine formater_note formater_budget
        \<lparr>opt_archived = None, opt_columns = None, opt_format = JStr (lit ''table''),
         opt_search = None, opt_sort = Some (lit ''foo'')\<rparr> (Inr [])
       = [ConsoleError (invalidSortMessage (lit ''foo'')), ProcessExit 2]
   \<and> opt_sort \<lparr>opt_archived = None, opt_columns = Some (lit ''id,foo,bar''),
               opt_format = JStr (lit ''table''), opt_search = None, opt_sort = None\<rparr> = None
   \<and> find unresolvable (split_comma (program_columns (opt_columns
          \<lparr>opt_archived = None, opt_columns = Some (lit ''id,foo,bar''),
           opt_format = JStr (lit ''table''), opt_search = None, opt_sort = None\<rparr>)))
       = Some (lit ''foo'')
   \<and> customersCommand ascii_engine formater_note formater_budget
        \<lparr>opt_archived = None, opt_columns = Some (lit ''id,foo,bar''),
         opt_format = JStr (lit ''table''), opt_search = None, opt_sort = None\<rparr> (Inr [])
       = [GetCustomers (opt_search
            \<lparr>opt_archived = None, opt_columns = Some (lit ''id,foo,bar''),
             opt_format = JStr (lit ''table''), opt_search = None, opt_sort = None\<rparr>),
          ConsoleError (invalidColumnMessage (lit ''foo'')), ProcessExit 2]"
proof -
  let ?o1 = "\<lparr>opt_archived = None, opt_columns = None, opt_format = JStr (lit ''table''),
              opt_search = None, opt_sort = Some (lit ''foo'')\<rparr>"
  let ?o2 = "\<lparr>opt_archived = None, opt_columns = Some (lit ''id,foo,bar''),
              opt_format = JStr (lit ''table''), opt_search = None, opt_sort = None\<rparr>"
  have a1: "opt_sort ?o1 = Some (lit ''foo'')" by simp
  have a2: "lit ''foo'' \<notin> set SORT_OPTIONS" by code_simp
  have b1: "opt_sort ?o2 = None" by simp
  have b2: "find unresolvable (split_comma (program_columns (opt_columns ?o2)))
              = Some (lit ''foo'')"
    by code_simp
  have r1: "customersCommand ascii_engine formater_note formater_budget ?o1 (Inr [])
       = [ConsoleError (invalidSortMessage (lit ''foo'')), ProcessExit 2]"
    by (rule invalid_options_exit_2 [THEN conjunct1, THEN mp]) (intro conjI a1 a2)
  have r2: "customersCommand ascii_engine formater_note formater_budget ?o2 (Inr [])
       = [GetCustomers (opt_search ?o2), ConsoleError (invalidColumnMessage (lit ''foo'')),
          ProcessExit 2]"
    by (rule invalid_options_exit_2 [THEN conjunct2, THEN mp]) (intro conjI disjI1 b1 b2)
  show ?thesis by (intro conjI a1 a2 r1 b1 b2 r2)
qed

text \<open>
  The claim as it was stated fails for the column names: the name \<open>foo\<close> is
  reported after the fetch, and when the fetch fails it is not reported at all and the
  exit code is 1.
\<close>

theorem column_error_after_fetch:
  "customersCommand ascii_engine formater_note formater_budget
     \<lparr>opt_archived = None, opt_columns = Some (lit ''foo''), opt_format = JStr (lit ''table''),
      opt_search = None, opt_sort = None\<rparr> (Inr [])
    = [GetCustomers None, ConsoleError (invalidColumnMessage (lit ''foo'')), ProcessExit 2]
   \<and> customersCommand ascii_engine formater_note formater_budget
     \<lparr>opt_archived = None, opt_columns = Some (lit ''foo''), opt_format = JStr (lit ''table''),
      opt_search = None, opt_sort = None\<rparr> (Inl (lit ''connect ETIMEDOUT''))
    = [GetCustomers None, ConsoleLog (lit ''connect ETIMEDOUT''), ProcessExit 1]"
  by code_simp

section \<open>The name resolver\<close>

lemma matchSet_code: "array_filter (matchesQuery js q) options = matchSet js options q"
proof -
  have "matchesQuery js q
          = (\<lambda>c. name c \<noteq> [] \<and> contains_ignoring_case js (name c) q)"
    by (simp add: fun_eq_iff matchesQuery_def contains_ignoring_case_code)
  then show ?thesis by (simp add: array_filter_filter matchSet_def)
qed

lemma matchSet_ascii:
  assumes "ascii_faithful js" and "ascii q" and "list_all (\<lambda>c. ascii (name c)) options"
  shows "matchSet js options q = filter (\<lambda>c. name c \<noteq> [] \<and> ci_contains (name c) q) options"
  unfolding matchSet_def
proof (rule filter_cong [OF refl])
  fix c assume "c \<in> set options"
  with assms(3) have "ascii (name c)" by (simp add: list_all_iff)
  with assms(1,2) show "(name c \<noteq> [] \<and> contains_ignoring_case js (name c) q)
          = (name c \<noteq> [] \<and> ci_contains (name c) q)"
    by (simp add: ascii_contains)
qed

lemma checkResults_none:
  "matchSet js options q = [] \<Longrightarrow>
     checkResults js options (Some q) ty = ([noneFoundMessage ty q, hintMessage ty], Exited 1)"
  by (simp add: checkResults_def matchSet_code)

lemma checkResults_one:
  "matchSet js options q = [c] \<Longrightarrow> checkResults js options (Some q) ty = ([], Returned [c])"
  by (simp add: checkResults_def matchSet_code)

lemma checkResults_many:
  "1 < length (matchSet js options q) \<Longrightarrow>
     checkResults js options (Some q) ty
       = (multipleFoundMessage ty q
            # map (\<lambda>current. lit ''- '' @ name current) (matchSet js options q)
            @ [hintMessage ty], Exited 1)"
  by (auto simp: checkResults_def matchSet_code Let_def)

text \<open>
  C1, as the code has it. The match set is formed from exactly the candidates that have
  a non-empty name which, upper-cased, contains the upper-cased query; for ASCII names
  and an ASCII query these are the candidates with a non-empty name that contains the
  query as a case-insensitive substring. When the match set is empty the resolver
  prints that nothing matches and ends the process with code 1; when it has one element
  the resolver returns that candidate and prints nothing; when it has more it prints
  the name of every match and ends the process with the same code 1.
\<close>

theorem checkResults_resolves:
  "(matchSet js options query = [] \<longrightarrow>
      checkResults js options (Some query) ty
        = ([noneFoundMessage ty query, hintMessage ty], Exited 1))
   \<and> (matchSet js options query = [c] \<longrightarrow>
      checkResults js options (Some query) ty = ([], Returned [c]))
   \<and> (1 < length (matchSet js options query) \<longrightarrow>
      checkResults js options (Some query) ty
        = (multipleFoundMessage ty query
             # map (\<lambda>current. lit ''- '' @ name current) (matchSet js options query)
             @ [hintMessage ty],
           Exited 1))
   \<and> (ascii_faithful js \<and> ascii query \<and> list_all (\<lambda>c. ascii (name c)) options \<longrightarrow>
      matchSet js options query
        = filter (\<lambda>c. name c \<noteq> [] \<and> ci_contains (name c) query) options)"
  using checkResults_none checkResults_one checkResults_many matchSet_ascii by blast

text \<open>The example of the specification: the candidates \<open>Acme\<close> and \<open>Acme Corp\<close>.\<close>

theorem checkResults_resolves_witness:
  "matchSet ascii_engine
      [\<lparr>name = lit ''Acme'', val = JNum 1\<rparr>, \<lparr>name = lit ''Acme Corp'', val = JNum 2\<rparr>]
      (lit ''zzz'') = []
   \<and> checkResults ascii_engine
        [\<lparr>name = lit ''Acme'', val = JNum 1\<rparr>, \<lparr>name = lit ''Acme Corp'', val = JNum 2\<rparr>]
        (Some (lit ''zzz'')) (lit ''project'')
       = ([noneFoundMessage (lit ''project'') (lit ''zzz''), hintMessage (lit ''project'')],
          Exited 1)
   \<and> matchSet ascii_engine
        [\<lparr>name = lit ''Acme'', val = JNum 1\<rparr>, \<lparr>name = lit ''Acme Corp'', val = JNum 2\<rparr>]
        (lit ''Acme Corp'') = [\<lparr>name = lit ''Acme Corp'', val = JNum 2\<rparr>]
   \<and> checkResults ascii_engine
        [\<lparr>name = lit ''Acme'', val = JNum 1\<rparr>, \<lparr>name = lit ''Acme Corp'', val = JNum 2\<rparr>]
        (Some (lit ''Acme Corp'')) (lit ''project'')
       = ([], Returned [\<lparr>name = lit ''Acme Corp'', val = JNum 2\<rparr>])
   \<and> 1 < length (matchSet ascii_engine
        [\<lparr>name = lit ''Acme'', val = JNum 1\<rparr>, \<lparr>name = lit ''Acme Corp'', val = JNum 2\<rparr>]
        (lit ''acme''))
   \<and> checkResults ascii_engine
        [\<lparr>name = lit ''Acme'', val = JNum 1\<rparr>, \<lparr>name = lit ''Acme Corp'', val = JNum 2\<rparr>]
        (Some (lit ''acme'')) (lit ''project'')
       = (multipleFoundMessage (lit ''project'') (lit ''acme'')
            # map (\<lambda>current. lit ''- '' @ name current)
                (matchSet ascii_engine
                   [\<lparr>name = lit ''Acme'', val = JNum 1\<rparr>,
                    \<lparr>name = lit ''Acme Corp'', val = JNum 2\<rparr>] (lit ''acme''))
            @ [hintMessage (lit ''project'')],
          Exited 1)
   \<and> ascii_faithful ascii_engine \<and> ascii (lit ''acme'')
   \<and> list_all (\<lambda>c. ascii (name c))
        [\<lparr>name = lit ''Acme'', val = JNum 1\<rparr>, \<lparr>name = lit ''Acme Corp'', val = JNum 2\<rparr>]
   \<and> matchSet ascii_engine
        [\<lparr>name = lit ''Acme'', val = JNum 1\<rparr>, \<lparr>name = lit ''Acme Corp'', val = JNum 2\<rparr>]
        (lit ''acme'')
       = filter (\<lambda>c. name c \<noteq> [] \<and> ci_contains (name c) (lit ''acme''))
           [\<lparr>name = lit ''Acme'', val = JNum 1\<rparr>, \<lparr>name = lit ''Acme Corp'', val = JNum 2\<rparr>]"
proof -
  let ?opts = "[\<lparr>name = lit ''Acme'', val = JNum 1\<rparr>, \<lparr>name = lit ''Acme Corp'', val = JNum 2\<rparr>]"
  let ?ty = "lit ''project''"
  have h0: "matchSet ascii_engine ?opts (lit ''zzz'') = []" by code_simp
  have h1: "matchSet ascii_engine ?opts (lit ''Acme Corp'')
              = [\<lparr>name = lit ''Acme Corp'', val = JNum 2\<rparr>]"
    by code_simp
  have h2: "1 < length (matchSet ascii_engine ?opts (lit ''acme''))" by code_simp
  have a1: "ascii_faithful ascii_engine" by (rule ascii_faithful_ascii_engine)
  have a2: "ascii (lit ''acme'')" by code_simp
  have a3: "list_all (\<lambda>c. ascii (name c)) ?opts" by code_simp
  have r0: "checkResults ascii_engine ?opts (Some (lit ''zzz'')) ?ty
       = ([noneFoundMessage ?ty (lit ''zzz''), hintMessage ?ty], Exited 1)"
    by (rule checkResults_resolves [THEN conjunct1, THEN mp, OF h0])
  have r1: "checkResults ascii_engine ?opts (Some (lit ''Acme Corp'')) ?ty
       = ([], Returned [\<lparr>name = lit ''Acme Corp'', val = JNum 2\<rparr>])"
    by (rule checkResults_resolves [THEN conjunct2, THEN conjunct1, THEN mp, OF h1])
  have r2: "checkResults ascii_engine ?opts (Some (lit ''acme'')) ?ty
       = (multipleFoundMessage ?ty (lit ''acme'')
            # map (\<lambda>current. lit ''- '' @ name current)
                (matchSet ascii_engine ?opts (lit ''acme''))
            @ [hintMessage ?ty],
          Exited 1)"
    by (rule checkResults_resolves
          [THEN conjunct2, THEN conjunct2, THEN conjunct1, THEN mp, OF h2])
  have r3: "matchSet ascii_engine ?opts (lit ''acme'')
       = filter (\<lambda>c. name c \<noteq> [] \<and> ci_contains (name c) (lit ''acme'')) ?opts"
    by (rule checkResults_resolves
          [of ascii_engine ?opts "lit ''acme''" ?ty "hd ?opts",
           THEN conjunct2, THEN conjunct2, THEN conjunct2, THEN mp])
       (intro conjI a1 a2 a3)
  show ?thesis by (intro conjI h0 r0 h1 r1 h2 r2 a1 a2 a3 r3)
qed

text \<open>
  The claim as it was stated fails for a candidate without a name: its name contains the
  empty query, yet the resolver reports that nothing matches and ends the process.
\<close>

theorem empty_name_never_matches:
  "ci_contains (name \<lparr>name = [], val = JNum 1\<rparr>) []
   \<and> contains_ignoring_case ascii_engine (name \<lparr>name = [], val = JNum 1\<rparr>) []
   \<and> checkResults ascii_engine [\<lparr>name = [], val = JNum 1\<rparr>] (Some []) (lit ''project'')
       = ([noneFoundMessage (lit ''project'') [], hintMessage (lit ''project'')], Exited 1)"
  by code_simp

section \<open>The direct mode\<close>

lemma checkResults_fails:
  assumes "length (matchSet js options q) \<noteq> 1"
  shows "\<exists>log. checkResults js options (Some q) ty = (log, Exited 1)"
proof (cases "matchSet js options q = []")
  case True
  then show ?thesis by (simp add: checkResults_none)
next
  case False
  with assms have "1 < length (matchSet js options q)"
    by (cases "matchSet js options q") auto
  then show ?thesis by (simp add: checkResults_many)
qed

lemma cliMode_project_fails:
  assumes "length (matchSet js (getProjectChoices ps) p) \<noteq> 1"
  shows "\<exists>log. cliMode js dollar today (Inr ps) (Inr ss) note (Some p) service mins date
           = ([GetProjects, GetServices] @ map Log log, Exited 1)"
proof -
  from checkResults_fails [OF assms] obtain log
    where "checkResults js (getProjectChoices ps) (Some p) (lit ''project'') = (log, Exited 1)"
    by blast
  then have "cliMode js dollar today (Inr ps) (Inr ss) note (Some p) service mins date
           = ([GetProjects, GetServices] @ map Log log, Exited 1)"
    by (simp add: cliMode_def)
  then show ?thesis by blast
qed

lemma cliMode_service_fails:
  assumes "matchSet js (getProjectChoices ps) p = [c]"
    and "length (matchSet js (getServiceChoices dollar ss) s) \<noteq> 1"
  shows "\<exists>log. cliMode js dollar today (Inr ps) (Inr ss) note (Some p) (Some s) mins date
           = ([GetProjects, GetServices] @ map Log log, Exited 1)"
proof -
  from checkResults_fails [OF assms(2)] obtain log
    where "checkResults js (getServiceChoices dollar ss) (Some s) (lit ''service'')
             = (log, Exited 1)"
    by blast
  with assms(1)
  have "cliMode js dollar today (Inr ps) (Inr ss) note (Some p) (Some s) mins date
           = ([GetProjects, GetServices] @ map Log log, Exited 1)"
    by (simp add: cliMode_def checkResults_one)
  then show ?thesis by blast
qed

lemma cliMode_resolves:
  assumes "matchSet js (getProjectChoices ps) p = [c1]"
    and "matchSet js (getServiceChoices dollar ss) s = [c2]"
  shows "cliMode js dollar today (Inr ps) (Inr ss) note (Some p) (Some s) mins date
           = ([GetProjects, GetServices],
              Returned \<lparr>project_id = val c1, entry_note = argValue note,
                        minutes = argValue mins, service_id = val c2,
                        date_at = js_or (argValue date) (JStr today)\<rparr>)"
  using assms by (simp add: cliMode_def checkResults_one)

lemma main_exits:
  assumes "p \<noteq> []"
    and "cliMode js dollar today (Inr ps) (Inr ss) note (Some p) (Some s) mins date
           = ([GetProjects, GetServices] @ map Log log, Exited 1)"
  shows "last (main js dollar today answers (Inr ps) (Inr ss) note (Some p) (Some s) mins date)
           = Exit 1
         \<and> \<not> list_ex isAddTimeEntry
              (main js dollar today answers (Inr ps) (Inr ss) note (Some p) (Some s) mins date)"
proof -
  have "main js dollar today answers (Inr ps) (Inr ss) note (Some p) (Some s) mins date
          = [GetProjects, GetServices] @ map Log log @ [Exit 1]"
    using assms by (simp add: main_def argValue_def)
  then show ?thesis by (simp add: list_ex_iff image_iff)
qed

text \<open>
  C8. In the direct mode, with both lists fetched and both names given, the project and
  the service are resolved by one call of the resolver each. When either name has no
  match or several, the command prints, ends the process with code 1 and never calls
  \<^verbatim>\<open>mite.addTimeEntry\<close>. When each has exactly one match, the entry carries the
  identifier of the project's match and that of the service's match.
\<close>

theorem direct_mode_all_or_nothing:
  "(p \<noteq> [] \<and> (length (matchSet js (getProjectChoices ps) p) \<noteq> 1
                \<or> length (matchSet js (getServiceChoices dollar ss) s) \<noteq> 1) \<longrightarrow>
      last (main js dollar today answers (Inr ps) (Inr ss) note (Some p) (Some s) mins date)
        = Exit 1
      \<and> \<not> list_ex isAddTimeEntry
           (main js dollar today answers (Inr ps) (Inr ss) note (Some p) (Some s) mins date))
   \<and> (matchSet js (getProjectChoices ps) p = [c1]
       \<and> matchSet js (getServiceChoices dollar ss) s = [c2] \<longrightarrow>
      cliMode js dollar today (Inr ps) (Inr ss) note (Some p) (Some s) mins date
        = ([GetProjects, GetServices],
           Returned \<lparr>project_id = val c1, entry_note = argValue note,
                     minutes = argValue mins, service_id = val c2,
                     date_at = js_or (argValue date) (JStr today)\<rparr>))"
proof (intro conjI impI)
  assume h: "p \<noteq> [] \<and> (length (matchSet js (getProjectChoices ps) p) \<noteq> 1
                \<or> length (matchSet js (getServiceChoices dollar ss) s) \<noteq> 1)"
  have "\<exists>log. cliMode js dollar today (Inr ps) (Inr ss) note (Some p) (Some s) mins date
           = ([GetProjects, GetServices] @ map Log log, Exited 1)"
  proof (cases "length (matchSet js (getProjectChoices ps) p) = 1")
    case False
    then show ?thesis by (rule cliMode_project_fails)
  next
    case True
    then obtain c where c: "matchSet js (getProjectChoices ps) p = [c]"
      by (cases "matchSet js (getProjectChoices ps) p") auto
    from True h have "length (matchSet js (getServiceChoices dollar ss) s) \<noteq> 1" by blast
    with c show ?thesis by (rule cliMode_service_fails)
  qed
  then obtain log where
    "cliMode js dollar today (Inr ps) (Inr ss) note (Some p) (Some s) mins date
           = ([GetProjects, GetServices] @ map Log log, Exited 1)" by blast
  with h have r:
    "last (main js dollar today answers (Inr ps) (Inr ss) note (Some p) (Some s) mins date)
       = Exit 1
     \<and> \<not> list_ex isAddTimeEntry
          (main js dollar today answers (Inr ps) (Inr ss) note (Some p) (Some s) mins date)"
    using main_exits by blast
  from r show
    "last (main js dollar today answers (Inr ps) (Inr ss) note (Some p) (Some s) mins date)
       = Exit 1" by (rule conjunct1)
  from r show "\<not> list_ex isAddTimeEntry
      (main js dollar today answers (Inr ps) (Inr ss) note (Some p) (Some s) mins date)"
    by (rule conjunct2)
next
  assume "matchSet js (getProjectChoices ps) p = [c1]
       \<and> matchSet js (getServiceChoices dollar ss) s = [c2]"
  then show "cliMode js dollar today (Inr ps) (Inr ss) note (Some p) (Some s) mins date
        = ([GetProjects, GetServices],
           Returned \<lparr>project_id = val c1, entry_note = argValue note,
                     minutes = argValue mins, service_id = val c2,
                     date_at = js_or (argValue date) (JStr today)\<rparr>)"
    by (simp add: cliMode_resolves)
qed

text \<open>A project name with several matches, and a project and a service with one match
  each.\<close>

theorem direct_mode_all_or_nothing_witness:
  "lit ''e'' \<noteq> []
   \<and> length (matchSet ascii_engine (getProjectChoices
        [[(lit ''id'', JNum 7), (lit ''name'', JStr (lit ''Website'')),
          (lit ''customer_name'', JStr (lit ''Acme''))],
         [(lit ''id'', JNum 8), (lit ''name'', JStr (lit ''Intern''))]]) (lit ''e'')) \<noteq> 1
   \<and> last (main ascii_engine (lit ''$'') (lit ''2020-01-01'')
        \<lparr>project_id = JNull, entry_note = JNull, minutes = JNull, service_id = JNull,
         date_at = JNull\<rparr>
        (Inr [[(lit ''id'', JNum 7), (lit ''name'', JStr (lit ''Website'')),
               (lit ''customer_name'', JStr (lit ''Acme''))],
              [(lit ''id'', JNum 8), (lit ''name'', JStr (lit ''Intern''))]])
        (Inr [[(lit ''id'', JNum 3), (lit ''name'', JStr (lit ''Dev'')),
               (lit ''billable'', JBool True)]])
        (Some (lit ''did x'')) (Some (lit ''e'')) (Some (lit ''dev'')) (Some (lit ''30''))
        None) = Exit 1
   \<and> matchSet ascii_engine (getProjectChoices
        [[(lit ''id'', JNum 7), (lit ''name'', JStr (lit ''Website'')),
          (lit ''customer_name'', JStr (lit ''Acme''))],
         [(lit ''id'', JNum 8), (lit ''name'', JStr (lit ''Intern''))]]) (lit ''web'')
       = [\<lparr>name = lit ''Website (Acme)'', val = JNum 7\<rparr>]
   \<and> matchSet ascii_engine (getServiceChoices (lit ''$'')
        [[(lit ''id'', JNum 3), (lit ''name'', JStr (lit ''Dev'')),
          (lit ''billable'', JBool True)]]) (lit ''dev'')
       = [\<lparr>name = lit ''Dev $'', val = JNum 3\<rparr>]
   \<and> cliMode ascii_engine (lit ''$'') (lit ''2020-01-01'')
        (Inr [[(lit ''id'', JNum 7), (lit ''name'', JStr (lit ''Website'')),
               (lit ''customer_name'', JStr (lit ''Acme''))],
              [(lit ''id'', JNum 8), (lit ''name'', JStr (lit ''Intern''))]])
        (Inr [[(lit ''id'', JNum 3), (lit ''name'', JStr (lit ''Dev'')),
               (lit ''billable'', JBool True)]])
        (Some (lit ''did x'')) (Some (lit ''web'')) (Some (lit ''dev'')) (Some (lit ''30''))
        None
       = ([GetProjects, GetServices],
          Returned \<lparr>project_id = val \<lparr>name = lit ''Website (Acme)'', val = JNum 7\<rparr>,
                    entry_note = argValue (Some (lit ''did x'')),
                    minutes = argValue (Some (lit ''30'')),
                    service_id = val \<lparr>name = lit ''Dev $'', val = JNum 3\<rparr>,
                    date_at = js_or (argValue None) (JStr (lit ''2020-01-01''))\<rparr>)"
proof -
  let ?ps = "[[(lit ''id'', JNum 7), (lit ''name'', JStr (lit ''Website'')),
               (lit ''customer_name'', JStr (lit ''Acme''))],
              [(lit ''id'', JNum 8), (lit ''name'', JStr (lit ''Intern''))]]"
  let ?ss = "[[(lit ''id'', JNum 3), (lit ''name'', JStr (lit ''Dev'')),
               (lit ''billable'', JBool True)]]"
  let ?answers = "\<lparr>project_id = JNull, entry_note = JNull, minutes = JNull,
                   service_id = JNull, date_at = JNull\<rparr>"
  let ?c1 = "\<lparr>name = lit ''Website (Acme)'', val = JNum 7\<rparr>"
  let ?c2 = "\<lparr>name = lit ''Dev $'', val = JNum 3\<rparr>"
  have a1: "lit ''e'' \<noteq> []" by (simp add: lit_def)
  have a2: "length (matchSet ascii_engine (getProjectChoices ?ps) (lit ''e'')) \<noteq> 1"
    by code_simp
  have b1: "matchSet ascii_engine (getProjectChoices ?ps) (lit ''web'') = [?c1]"
    by code_simp
  have b2: "matchSet ascii_engine (getServiceChoices (lit ''$'') ?ss) (lit ''dev'') = [?c2]"
    by code_simp
  have r1: "last (main ascii_engine (lit ''$'') (lit ''2020-01-01'') ?answers
        (Inr ?ps) (Inr ?ss)
        (Some (lit ''did x'')) (Some (lit ''e'')) (Some (lit ''dev'')) (Some (lit ''30''))
        None) = Exit 1"
    by (rule direct_mode_all_or_nothing
          [of "lit ''e''" ascii_engine ?ps "lit ''$''" ?ss "lit ''dev''",
           THEN conjunct1, THEN mp, THEN conjunct1])
       (intro conjI disjI1 a1 a2)
  have r2: "cliMode ascii_engine (lit ''$'') (lit ''2020-01-01'') (Inr ?ps) (Inr ?ss)
        (Some (lit ''did x'')) (Some (lit ''web'')) (Some (lit ''dev'')) (Some (lit ''30''))
        None
       = ([GetProjects, GetServices],
          Returned \<lparr>project_id = val ?c1,
                    entry_note = argValue (Some (lit ''did x'')),
                    minutes = argValue (Some (lit ''30'')),
                    service_id = val ?c2,
                    date_at = js_or (argValue None) (JStr (lit ''2020-01-01''))\<rparr>)"
    by (rule direct_mode_all_or_nothing
          [of "lit ''web''" ascii_engine ?ps "lit ''$''" ?ss "lit ''dev''"
              "lit ''2020-01-01''" ?answers "Some (lit ''did x'')" "Some (lit ''30'')" None,
           THEN conjunct2, THEN mp])
       (intro conjI b1 b2)
  show ?thesis by (intro conjI a1 a2 r1 b1 b2 r2)
qed

section \<open>The candidates of the direct mode\<close>

lemma matchSet_append: "matchSet js (xs @ ys) q = matchSet js xs q @ matchSet js ys q"
  by (simp add: matchSet_def)

lemma noProject_name: "name noProject \<noteq> []"
  by (simp add: noProject_def)

lemma noService_name: "name noService \<noteq> []"
  by (simp add: noService_def)

lemma projectChoice_name:
  "name (projectChoice p)
     = (if truthy (getProp p (lit ''customer_name''))
        then joinElement (getProp p (lit ''name'')) @ lit '' (''
               @ String (getProp p (lit ''customer_name'')) @ lit '')''
        else joinElement (getProp p (lit ''name'')))"
  by (simp add: projectChoice_def Let_def joinElement_def lit_def)

text \<open>
  C10. The list of project candidates is one candidate for each project, carrying the
  project's id and its name, followed by the customer's name in parentheses when the
  project has one, and then the synthetic candidate \<open>(no project)\<close> with the
  identifier \<open>null\<close>; the list of service candidates ends likewise with
  \<open>(no service)\<close>. A query that matches the synthetic name and no other candidate
  resolves to the synthetic candidate.
\<close>

theorem choices_end_with_null_candidate:
  "last (getProjectChoices ps) = noProject
   \<and> butlast (getProjectChoices ps) = map projectChoice ps
   \<and> noProject = \<lparr>name = 8211 # lit '' (no project)'', val = JNull\<rparr>
   \<and> last (getServiceChoices dollar ss) = noService
   \<and> butlast (getServiceChoices dollar ss) = map (serviceChoice dollar) ss
   \<and> noService = \<lparr>name = 8211 # lit '' (no service)'', val = JNull\<rparr>
   \<and> val (projectChoice p) = getProp p (lit ''id'')
   \<and> val (serviceChoice dollar sv) = getProp sv (lit ''id'')
   \<and> name (projectChoice p)
       = (if truthy (getProp p (lit ''customer_name''))
          then joinElement (getProp p (lit ''name'')) @ lit '' (''
                 @ String (getProp p (lit ''customer_name'')) @ lit '')''
          else joinElement (getProp p (lit ''name'')))
   \<and> (matchSet js (map projectChoice ps) q = []
       \<and> contains_ignoring_case js (name noProject) q \<longrightarrow>
        checkResults js (getProjectChoices ps) (Some q) (lit ''project'')
          = ([], Returned [noProject]))
   \<and> (matchSet js (map (serviceChoice dollar) ss) q = []
       \<and> contains_ignoring_case js (name noService) q \<longrightarrow>
        checkResults js (getServiceChoices dollar ss) (Some q) (lit ''service'')
          = ([], Returned [noService]))"
proof (intro conjI impI)
  show "name (projectChoice p)
       = (if truthy (getProp p (lit ''customer_name''))
          then joinElement (getProp p (lit ''name'')) @ lit '' (''
                 @ String (getProp p (lit ''customer_name'')) @ lit '')''
          else joinElement (getProp p (lit ''name'')))"
    by (rule projectChoice_name)
next
  assume "matchSet js (map projectChoice ps) q = []
       \<and> contains_ignoring_case js (name noProject) q"
  then have "matchSet js (getProjectChoices ps) q = [noProject]"
    by (simp add: getProjectChoices_def matchSet_append) (simp add: matchSet_def noProject_name)
  then show "checkResults js (getProjectChoices ps) (Some q) (lit ''project'')
          = ([], Returned [noProject])"
    by (rule checkResults_one)
next
  assume "matchSet js (map (serviceChoice dollar) ss) q = []
       \<and> contains_ignoring_case js (name noService) q"
  then have "matchSet js (getServiceChoices dollar ss) q = [noService]"
    by (simp add: getServiceChoices_def matchSet_append) (simp add: matchSet_def noService_name)
  then show "checkResults js (getServiceChoices dollar ss) (Some q) (lit ''service'')
          = ([], Returned [noService])"
    by (rule checkResults_one)
qed (simp_all add: getProjectChoices_def getServiceChoices_def noProject_def noService_def
       projectChoice_def serviceChoice_def Let_def)

theorem choices_end_with_null_candidate_witness:
  "matchSet ascii_engine (map projectChoice
      [[(lit ''id'', JNum 7), (lit ''name'', JStr (lit ''Website'')),
        (lit ''customer_name'', JStr (lit ''Acme''))]])
      (lit ''No Project'') = []
   \<and> contains_ignoring_case ascii_engine (name noProject) (lit ''No Project'')
   \<and> checkResults ascii_engine (getProjectChoices
        [[(lit ''id'', JNum 7), (lit ''name'', JStr (lit ''Website'')),
          (lit ''customer_name'', JStr (lit ''Acme''))]])
        (Some (lit ''No Project'')) (lit ''project'') = ([], Returned [noProject])
   \<and> matchSet ascii_engine (map (serviceChoice (lit ''$''))
        [[(lit ''id'', JNum 3), (lit ''name'', JStr (lit ''Dev'')),
          (lit ''billable'', JBool True)]])
        (lit ''(no service)'') = []
   \<and> contains_ignoring_case ascii_engine (name noService) (lit ''(no service)'')
   \<and> checkResults ascii_engine (getServiceChoices (lit ''$'')
        [[(lit ''id'', JNum 3), (lit ''name'', JStr (lit ''Dev'')),
          (lit ''billable'', JBool True)]])
        (Some (lit ''(no service)'')) (lit ''service'') = ([], Returned [noService])"
proof -
  let ?ps = "[[(lit ''id'', JNum 7), (lit ''name'', JStr (lit ''Website'')),
               (lit ''customer_name'', JStr (lit ''Acme''))]]"
  let ?ss = "[[(lit ''id'', JNum 3), (lit ''name'', JStr (lit ''Dev'')),
               (lit ''billable'', JBool True)]]"
  note T = choices_end_with_null_candidate [of ?ps "lit ''$''" ?ss "hd ?ps" "hd ?ss" ascii_engine]
  have a1: "matchSet ascii_engine (map projectChoice ?ps) (lit ''No Project'') = []"
    by code_simp
  have a2: "contains_ignoring_case ascii_engine (name noProject) (lit ''No Project'')"
    by code_simp
  have b1: "matchSet ascii_engine (map (serviceChoice (lit ''$'')) ?ss) (lit ''(no service)'')
              = []"
    by code_simp
  have b2: "contains_ignoring_case ascii_engine (name noService) (lit ''(no service)'')"
    by code_simp
  have r1: "checkResults ascii_engine (getProjectChoices ?ps)
        (Some (lit ''No Project'')) (lit ''project'') = ([], Returned [noProject])"
    by (rule T [of "lit ''No Project''", THEN conjunct2, THEN conjunct2, THEN conjunct2,
          THEN conjunct2, THEN conjunct2, THEN conjunct2, THEN conjunct2, THEN conjunct2,
          THEN conjunct2, THEN conjunct1, THEN mp])
       (intro conjI a1 a2)
  have r2: "checkResults ascii_engine (getServiceChoices (lit ''$'') ?ss)
        (Some (lit ''(no service)'')) (lit ''service'') = ([], Returned [noService])"
    by (rule T [of "lit ''(no service)''", THEN conjunct2, THEN conjunct2, THEN conjunct2,
          THEN conjunct2, THEN conjunct2, THEN conjunct2, THEN conjunct2, THEN conjunct2,
          THEN conjunct2, THEN conjunct2, THEN mp])
       (intro conjI b1 b2)
  show ?thesis by (intro conjI a1 a2 r1 b1 b2 r2)
qed

section \<open>The completion of customer update\<close>

text \<open>
  C9. When the previous word is none of the four flags that have values of their own
  and the line contains \<^verbatim>\<open>--archived\<close>, the completion function ends with a
  ReferenceError, whatever the API would have answered: it assigns through the binding
  \<^verbatim>\<open>customerOptions\<close> before the declaration of that binding has run.
\<close>

theorem completion_reference_error:
  "prev \<noteq> lit ''--archived'' \<and> prev \<noteq> lit ''--name'' \<and> prev \<noteq> lit ''--note''
   \<and> prev \<noteq> lit ''--hourly-rate'' \<and> sublist (lit ''--archived'') line \<longrightarrow>
     customerUpdateCompletion prev line response = Inl ReferenceError"
  by (simp add: customerUpdateCompletion_def Let_def indexOf_sublist bindingValue_def)

theorem completion_reference_error_witness:
  "lit ''update'' \<noteq> lit ''--archived'' \<and> lit ''update'' \<noteq> lit ''--name''
   \<and> lit ''update'' \<noteq> lit ''--note'' \<and> lit ''update'' \<noteq> lit ''--hourly-rate''
   \<and> sublist (lit ''--archived'') (lit ''mite customer update --archived'')
   \<and> customerUpdateCompletion (lit ''update'') (lit ''mite customer update --archived'')
        (Inr [[(lit ''id'', JNum 3), (lit ''name'', JStr (lit ''Dev''))]]) = Inl ReferenceError"
proof -
  have a1: "lit ''update'' \<noteq> lit ''--archived''" and a2: "lit ''update'' \<noteq> lit ''--name''"
    and a3: "lit ''update'' \<noteq> lit ''--note''" and a4: "lit ''update'' \<noteq> lit ''--hourly-rate''"
    by (simp_all add: lit_eq_iff)
  have "indexOf (lit ''mite customer update --archived'') (lit ''--archived'') > - 1"
    by code_simp
  then have b: "sublist (lit ''--archived'') (lit ''mite customer update --archived'')"
    by (simp only: indexOf_sublist)
  have c: "customerUpdateCompletion (lit ''update'') (lit ''mite customer update --archived'')
        (Inr [[(lit ''id'', JNum 3), (lit ''name'', JStr (lit ''Dev''))]]) = Inl ReferenceError"
    by (rule completion_reference_error [THEN mp]) (intro conjI a1 a2 a3 a4 b)
  show ?thesis by (intro conjI a1 a2 a3 a4 b c)
qed

end
